theory Spec2Isabelle
  imports Complex_Main
begin

section \<open>Errors and float division\<close>

text \<open>
  Every exception the modelled code can raise is a value of \<open>error\<close>; a function that can
  raise returns \<open>error + 'a\<close> with \<open>Inl\<close> for the exception.
\<close>

datatype error =
  AssertionError
  | NotImplementedError
  | RuntimeError
  | IndexError
  | TypeError
  | StopIteration
  | ValueError
  | ZeroDivisionError
  | AttributeError

definition and_then :: "error + 'a \<Rightarrow> ('a \<Rightarrow> error + 'b) \<Rightarrow> error + 'b" where
  "and_then m f = (case m of Inl e \<Rightarrow> Inl e | Inr v \<Rightarrow> f v)"

text \<open>The results of a list of calls made in order: the first exception ends them.\<close>

fun collect :: "(error + 'a) list \<Rightarrow> error + 'a list" where
  "collect [] = Inr []"
| "collect (r # rs) =
     (case r of
        Inl e \<Rightarrow> Inl e
      | Inr v \<Rightarrow> (case collect rs of Inl e \<Rightarrow> Inl e | Inr vs \<Rightarrow> Inr (v # vs)))"

text \<open>
  Tensor arithmetic is floating point: dividing by zero does not raise but gives
  \<open>inf\<close> or \<open>nan\<close>. A float is modelled as a real, and the non-finite results as
  \<open>None\<close>.
\<close>

definition fdiv :: "real \<Rightarrow> real \<Rightarrow> real option" where
  "fdiv a b = (if b = 0 then None else Some (a / b))"

section \<open>Atomic sampler\<close>

subsection \<open>Library tensors used by the sampler\<close>

definition eye :: "nat \<Rightarrow> real list list" where
  "eye n = map (\<lambda>r. map (\<lambda>c. if r = c then 1 else 0) [0..<n]) [0..<n]"

definition ones :: "nat \<Rightarrow> nat \<Rightarrow> real list list" where
  "ones n m = replicate n (replicate m 1)"

text \<open>
  \<open>ones(b, b) * (1 - eye(b)) / (b - 1)\<close>, elementwise: the matrix both logits
  functions build as \<open>probs\<close>.
\<close>

definition off_diagonal_probs :: "nat \<Rightarrow> real option list list" where
  "off_diagonal_probs b =
     map2 (\<lambda>orow erow. map2 (\<lambda>u e. fdiv (u * (1 - e)) (real b - 1)) orow erow)
       (ones b b) (eye b)"

text \<open>
  \<open>torch.multinomial(probs, num_samples, replacement=False)\<close> draws, for every row of
  \<open>probs\<close>, \<open>num_samples\<close> pairwise different column indices, each of positive
  weight. It raises when a weight is not finite or negative, when a row sums to zero,
  when \<open>num_samples\<close> is not positive and when a row has fewer than \<open>num_samples\<close>
  positive weights. The draw is random: the model takes its outcome as an argument and
  \<open>is_outcome\<close> says which outcomes the draw can have.
\<close>

definition finite_weight :: "real option \<Rightarrow> bool" where
  "finite_weight w = (case w of None \<Rightarrow> False | Some v \<Rightarrow> 0 \<le> v)"

definition positive_weight :: "real option \<Rightarrow> bool" where
  "positive_weight w = (case w of None \<Rightarrow> False | Some v \<Rightarrow> 0 < v)"

definition support :: "real option list \<Rightarrow> nat list" where
  "support p = filter (\<lambda>c. positive_weight (p ! c)) [0..<length p]"

definition row_ok :: "nat \<Rightarrow> real option list \<Rightarrow> bool" where
  "row_ok num_samples p =
     (list_all finite_weight p \<and> 0 < num_samples \<and> num_samples \<le> length (support p))"

definition is_draw :: "real option list \<Rightarrow> nat \<Rightarrow> nat list \<Rightarrow> bool" where
  "is_draw p num_samples cs =
     (length cs = num_samples \<and> distinct cs \<and> list_all (\<lambda>c. c \<in> set (support p)) cs)"

definition is_outcome :: "real option list list \<Rightarrow> nat \<Rightarrow> nat list list \<Rightarrow> bool" where
  "is_outcome probs num_samples outcome =
     (length outcome = length probs \<and>
      list_all2 (\<lambda>p cs. is_draw p num_samples cs) probs outcome)"

definition multinomial ::
  "real option list list \<Rightarrow> nat \<Rightarrow> nat list list \<Rightarrow> error + nat list list" where
  "multinomial probs num_samples outcome =
     (if list_all (row_ok num_samples) probs then Inr outcome else Inl RuntimeError)"

text \<open>\<open>tensor[choices]\<close> for a matrix of row indices; an index out of range raises.\<close>

definition index_rows :: "'a list \<Rightarrow> nat list list \<Rightarrow> error + 'a list list" where
  "index_rows tensor choices =
     (if list_all (list_all (\<lambda>c. c < length tensor)) choices
      then Inr (map (map (\<lambda>c. tensor ! c)) choices)
      else Inl IndexError)"

text \<open>
  Modelled from the spec: \<open>utils.repeat_rows\<close> is not among the source files; the spec
  says of it "Repeat x_i K times to align with the K candidate \<theta>'s".
\<close>

definition repeat_rows :: "'a list \<Rightarrow> nat \<Rightarrow> 'a list" where
  "repeat_rows x num_reps = concat (map (replicate num_reps) x)"

text \<open>
  \<open>tensor.reshape(rows, cols, ...)\<close> of a flat list of rows: consecutive runs of
  \<open>cols\<close> entries; it raises when the number of entries is not \<open>rows * cols\<close>.
\<close>

definition reshape2 :: "nat \<Rightarrow> nat \<Rightarrow> 'a list \<Rightarrow> error + 'a list list" where
  "reshape2 rows cols flat =
     (if length flat = rows * cols
      then Inr (map (\<lambda>r. take cols (drop (r * cols) flat)) [0..<rows])
      else Inl RuntimeError)"

subsection \<open>The primary atomic batch\<close>

text \<open>
  \<open>_classifier_logits\<close>: \<open>atomic_theta\<close> is the value of the local variable of that
  name, the \<open>[batch_size * num_atoms, ...]\<close> tensor handed to the classifier. The
  classifier is a function of one \<open>(theta, x)\<close> row to its logit, applied to every row
  of the batch.
\<close>

definition atomic_theta :: "'t list \<Rightarrow> nat \<Rightarrow> nat list list \<Rightarrow> error + 't list" where
  "atomic_theta theta num_atoms outcome =
     (let batch_size = length theta;
          probs = off_diagonal_probs batch_size
      in case multinomial probs (num_atoms - 1) outcome of
           Inl e \<Rightarrow> Inl e
         | Inr choices \<Rightarrow>
             (case index_rows theta choices of
                Inl e \<Rightarrow> Inl e
              | Inr contrasting_theta \<Rightarrow>
                  Inr (concat (map2 (\<lambda>t cs. t # cs) theta contrasting_theta))))"

definition classifier_logits ::
  "('t \<Rightarrow> 'x \<Rightarrow> real) \<Rightarrow> 't list \<Rightarrow> 'x list \<Rightarrow> nat \<Rightarrow> nat list list \<Rightarrow> error + real list" where
  "classifier_logits neural_net theta x num_atoms outcome =
     (let repeated_x = repeat_rows x num_atoms
      in case atomic_theta theta num_atoms outcome of
           Inl e \<Rightarrow> Inl e
         | Inr atomic \<Rightarrow> Inr (map2 neural_net atomic repeated_x))"

subsection \<open>The correction-term atomic batch\<close>

text \<open>
  \<open>_expand_exclude_same\<close>: \<open>tensor.expand(b, b, ...)\<close> repeats the batch \<open>b\<close> times,
  the mask \<open>~eye(b)\<close> keeps the entries off the diagonal in row-major order, and the
  reshape groups them into \<open>b\<close> rows of \<open>b - 1\<close>. For an empty batch the reshape to
  \<open>(0, -1, ...)\<close> raises.
\<close>

definition expand_exclude_same :: "'a list \<Rightarrow> error + 'a list list" where
  "expand_exclude_same tensor =
     (let batch_size = length tensor;
          reduced_batch_size = batch_size - 1;
          tt = replicate batch_size tensor;
          kept = concat (map (\<lambda>a. map (\<lambda>c. tt ! a ! c)
                   (filter (\<lambda>c. eye batch_size ! a ! c = 0) [0..<batch_size])) [0..<batch_size])
      in if batch_size = 0 then Inl RuntimeError
         else reshape2 batch_size reduced_batch_size kept)"

text \<open>
  \<open>_correction_logits\<close>. \<open>outcomes ! a\<close> is the outcome of the \<open>a\<close>-th of the
  \<open>batch_size\<close> draws that are stacked into \<open>choices\<close>. The draws are made on the
  \<open>[b - 1, b - 1]\<close> matrix \<open>probs\<close>, and \<open>choices\<close> then indexes \<open>theta\<close> itself:
  \<open>contrasting_theta = theta[choices]\<close>.
\<close>

definition correction_atomic_theta ::
  "'t list \<Rightarrow> nat \<Rightarrow> nat list list list \<Rightarrow> error + 't list" where
  "correction_atomic_theta theta num_atoms outcomes =
     (let batch_size = length theta;
          reduced_batch_size = batch_size - 1
      in and_then (expand_exclude_same theta) (\<lambda>tt.
         let probs = off_diagonal_probs reduced_batch_size
         in and_then
              (collect (map (\<lambda>a. multinomial probs (num_atoms - 1) (outcomes ! a))
                 [0..<batch_size])) (\<lambda>choices.
            and_then (collect (map (index_rows theta) choices)) (\<lambda>contrasting_theta.
              Inr (concat (map2 (\<lambda>trow crow. concat (map2 (\<lambda>t cs. t # cs) trow crow))
                     tt contrasting_theta))))))"

definition correction_logits ::
  "('t \<Rightarrow> 'x \<Rightarrow> real) \<Rightarrow> 't list \<Rightarrow> 'x list \<Rightarrow> nat \<Rightarrow> nat list list list
     \<Rightarrow> error + real list list" where
  "correction_logits neural_net theta x num_atoms outcomes =
     (let batch_size = length theta;
          reduced_batch_size = batch_size - 1
      in and_then (expand_exclude_same x) (\<lambda>xx_rows.
         if length (concat xx_rows) \<noteq> batch_size * reduced_batch_size then Inl RuntimeError
         else
           let xx = concat xx_rows;
               repeated_xx = repeat_rows xx num_atoms
           in and_then (correction_atomic_theta theta num_atoms outcomes) (\<lambda>atomic.
                reshape2 (num_atoms * batch_size) reduced_batch_size
                  (map2 neural_net atomic repeated_xx))))"

section \<open>Loss engine\<close>

subsection \<open>Tensors of floats\<close>

type_synonym float = "real option"

definition lift1 :: "(real \<Rightarrow> real) \<Rightarrow> float \<Rightarrow> float" where
  "lift1 f a = (case a of None \<Rightarrow> None | Some u \<Rightarrow> Some (f u))"

definition lift2 :: "(real \<Rightarrow> real \<Rightarrow> real) \<Rightarrow> float \<Rightarrow> float \<Rightarrow> float" where
  "lift2 f a b =
     (case a of None \<Rightarrow> None | Some u \<Rightarrow> (case b of None \<Rightarrow> None | Some v \<Rightarrow> Some (f u v)))"

definition fsum :: "float list \<Rightarrow> float" where
  "fsum xs = foldr (lift2 (+)) xs (Some 0)"

definition fmean :: "float list \<Rightarrow> float" where
  "fmean xs = (case fsum xs of None \<Rightarrow> None | Some t \<Rightarrow> fdiv t (real (length xs)))"

text \<open>\<open>log\<close> of a float: \<open>-inf\<close> at zero and \<open>nan\<close> below are both non-finite.\<close>

definition flog :: "float \<Rightarrow> float" where
  "flog a = (case a of None \<Rightarrow> None | Some u \<Rightarrow> if 0 < u then Some (ln u) else None)"

text \<open>
  A tensor of dimension 0, 1 or 2. The loss engine needs no more: the logits are squeezed
  to a vector or reshaped to a matrix before any loss is computed.
\<close>

datatype tensor = Scalar float | Vector "float list" | Matrix "float list list"

fun shape :: "tensor \<Rightarrow> nat list" where
  "shape (Scalar a) = []"
| "shape (Vector xs) = [length xs]"
| "shape (Matrix rows) = [length rows, (case rows of [] \<Rightarrow> 0 | r # _ \<Rightarrow> length r)]"

fun entries :: "tensor \<Rightarrow> float list" where
  "entries (Scalar a) = [a]"
| "entries (Vector xs) = xs"
| "entries (Matrix rows) = concat rows"

fun map_entries :: "(float \<Rightarrow> float) \<Rightarrow> tensor \<Rightarrow> tensor" where
  "map_entries f (Scalar a) = Scalar (f a)"
| "map_entries f (Vector xs) = Vector (map f xs)"
| "map_entries f (Matrix rows) = Matrix (map (map f) rows)"

text \<open>
  An elementwise operation on two tensors. A 0-dimensional tensor is broadcast against
  the other one; two tensors of the same shape are combined entry by entry; any other
  pair raises. (Broadcasting along a dimension of size 1 is left out: tensors of
  different positive dimension never meet in the modelled code.)
\<close>

fun elementwise2 :: "(float \<Rightarrow> float \<Rightarrow> float) \<Rightarrow> tensor \<Rightarrow> tensor \<Rightarrow> error + tensor" where
  "elementwise2 f (Scalar a) t = Inr (map_entries (f a) t)"
| "elementwise2 f t (Scalar b) = Inr (map_entries (\<lambda>a. f a b) t)"
| "elementwise2 f (Vector xs) (Vector ys) =
     (if length xs = length ys then Inr (Vector (map2 f xs ys)) else Inl RuntimeError)"
| "elementwise2 f (Matrix xs) (Matrix ys) =
     (if shape (Matrix xs) = shape (Matrix ys) then Inr (Matrix (map2 (map2 f) xs ys))
      else Inl RuntimeError)"
| "elementwise2 f (Vector xs) (Matrix ys) = Inl RuntimeError"
| "elementwise2 f (Matrix xs) (Vector ys) = Inl RuntimeError"

subsection \<open>Library functions of the loss\<close>

definition sigmoid :: "real \<Rightarrow> real" where
  "sigmoid u = 1 / (1 + exp (- u))"

text \<open>The binary cross-entropy of one logit \<open>u\<close> against one target \<open>t\<close>.\<close>

definition bce_entry :: "real \<Rightarrow> real \<Rightarrow> real" where
  "bce_entry u t = (1 - t) * u + ln (1 + exp (- u))"

text \<open>
  \<open>torch.binary_cross_entropy_with_logits(input, target, weight=None, pos_weight=None,
  reduction=Mean)\<close>: the entrywise losses, reduced as \<open>reduction\<close> says. The source calls
  it with two arguments only, so every call reduces with the default, the mean over all
  entries, to a 0-dimensional tensor.
\<close>

datatype reduction = NoReduction | Mean | Sum

fun apply_loss_reduction :: "tensor \<Rightarrow> reduction \<Rightarrow> tensor" where
  "apply_loss_reduction t NoReduction = t"
| "apply_loss_reduction t Mean = Scalar (fmean (entries t))"
| "apply_loss_reduction t Sum = Scalar (fsum (entries t))"

definition binary_cross_entropy_with_logits ::
  "tensor \<Rightarrow> tensor \<Rightarrow> reduction \<Rightarrow> error + tensor" where
  "binary_cross_entropy_with_logits input target reduction =
     and_then (elementwise2 (lift2 bce_entry) input target)
       (\<lambda>loss. Inr (apply_loss_reduction loss reduction))"

text \<open>
  \<open>torch.logsumexp(t, dim=-1)\<close>: over the last dimension; a 0-dimensional tensor has
  one entry, which is the result.
\<close>

definition lse :: "float list \<Rightarrow> float" where
  "lse xs = flog (fsum (map (lift1 exp) xs))"

fun logsumexp :: "tensor \<Rightarrow> tensor" where
  "logsumexp (Scalar a) = Scalar a"
| "logsumexp (Vector xs) = Scalar (lse xs)"
| "logsumexp (Matrix rows) = Vector (map lse rows)"

text \<open>\<open>t.size(-1)\<close>; a 0-dimensional tensor has no last dimension.\<close>

fun size_last :: "tensor \<Rightarrow> error + nat" where
  "size_last (Scalar a) = Inl IndexError"
| "size_last (Vector xs) = Inr (length xs)"
| "size_last (Matrix rows) = Inr (case rows of [] \<Rightarrow> 0 | r # _ \<Rightarrow> length r)"

subsection \<open>The loss terms\<close>

text \<open>\<open>SNRE_IB_A._correction(logits, dim=-1)\<close>.\<close>

definition correction :: "tensor \<Rightarrow> error + tensor" where
  "correction logits =
     and_then (size_last logits) (\<lambda>m.
     and_then (binary_cross_entropy_with_logits logits (map_entries (lift1 sigmoid) logits) Mean)
       (\<lambda>h.
         let neg_h = map_entries (lift1 uminus) h
         in elementwise2 (lift2 (-)) (logsumexp neg_h) (Scalar (flog (Some (real m))))))"

text \<open>\<open>.squeeze()\<close> of the classifier's \<open>[rows, 1]\<close> output.\<close>

definition squeeze :: "real list \<Rightarrow> tensor" where
  "squeeze xs = (case xs of [v] \<Rightarrow> Scalar (Some v) | _ \<Rightarrow> Vector (map Some xs))"

text \<open>\<open>labels = ones(2 * batch_size); labels[1::2] = 0.0\<close>.\<close>

definition labels :: "nat \<Rightarrow> tensor" where
  "labels batch_size = Vector (map (\<lambda>i. if odd i then Some 0 else Some 1) [0..<2 * batch_size])"

text \<open>
  \<open>SNRE_IB_A._loss_terms\<close>. \<open>outcome\<close> is the outcome of the draw made by
  \<open>_classifier_logits\<close>, \<open>outcomes\<close> those of the draws made by \<open>_correction_logits\<close>.
\<close>

definition loss_terms ::
  "('t \<Rightarrow> 'x \<Rightarrow> real) \<Rightarrow> 't list \<Rightarrow> 'x list \<Rightarrow> nat \<Rightarrow> nat list list \<Rightarrow> nat list list list
     \<Rightarrow> error + (tensor \<times> tensor \<times> tensor)" where
  "loss_terms neural_net theta x num_atoms outcome outcomes =
     (if length theta \<noteq> length x then Inl AssertionError
      else
        let batch_size = length theta
        in and_then (classifier_logits neural_net theta x num_atoms outcome) (\<lambda>out.
           let logits = squeeze out
           in and_then (binary_cross_entropy_with_logits logits (labels batch_size) Mean)
                (\<lambda>entropy_yw.
              and_then
                (binary_cross_entropy_with_logits logits (map_entries (lift1 sigmoid) logits) Mean)
                (\<lambda>entropy_zw.
              and_then (correction_logits neural_net theta x num_atoms outcomes) (\<lambda>logits'.
              and_then (correction (Matrix (map (map Some) logits'))) (\<lambda>exp_neg_entropy_zw.
                Inr (entropy_yw, entropy_zw, exp_neg_entropy_zw)))))))"

text \<open>
  \<open>RatioEstimator.convex_combine\<close> and \<open>RatioEstimator._loss\<close>. The multiplier is a
  Python float or \<open>None\<close> (the default of \<open>anneal\<close> and of \<open>SNRE_IB_A.train\<close>);
  \<open>1 - None\<close> raises.
\<close>

definition convex_combine ::
  "tensor \<Rightarrow> tensor \<Rightarrow> tensor \<Rightarrow> real option \<Rightarrow> error + tensor" where
  "convex_combine entropy_yw entropy_zw exp_neg_entropy_zw lagrange_multiplier =
     (case lagrange_multiplier of
        None \<Rightarrow> Inl TypeError
      | Some l \<Rightarrow>
          and_then (elementwise2 (lift2 (+)) entropy_zw exp_neg_entropy_zw) (\<lambda>reg.
            elementwise2 (lift2 (-))
              (map_entries (lift1 (\<lambda>v. (1 - l) * v)) entropy_yw)
              (map_entries (lift1 (\<lambda>v. l * v)) reg)))"

definition loss ::
  "('t \<Rightarrow> 'x \<Rightarrow> real) \<Rightarrow> 't list \<Rightarrow> 'x list \<Rightarrow> nat \<Rightarrow> real option \<Rightarrow> nat list list
     \<Rightarrow> nat list list list \<Rightarrow> error + (tensor \<times> tensor \<times> tensor)" where
  "loss neural_net theta x num_atoms lagrange_multiplier outcome outcomes =
     and_then (loss_terms neural_net theta x num_atoms outcome outcomes)
       (\<lambda>(entropy_yw, entropy_zw, exp_neg_entropy_zw).
          and_then (elementwise2 (lift2 (+)) entropy_zw exp_neg_entropy_zw) (\<lambda>regularizer.
          and_then (convex_combine entropy_yw entropy_zw exp_neg_entropy_zw lagrange_multiplier)
            (\<lambda>mixed. Inr (entropy_yw, regularizer, mixed))))"

section \<open>Round store and training\<close>

subsection \<open>The inference object\<close>

text \<open>
  The attributes of a \<open>RatioEstimator\<close> that the modelled methods read or write.
  \<open>round'\<close> is \<open>self._round\<close>, \<open>bookkeeping\<close> the attributes of the convergence check
  (\<open>_best_val_log_prob\<close> and the like), which only \<open>_converged\<close> touches. A float that is
  not finite (\<open>-inf\<close>, the start of \<open>_val_log_prob\<close>) is \<open>None\<close>.
\<close>

record ('t, 'x, 'net, 'opt, 'k) training_state =
  theta_roundwise :: "'t list list"
  x_roundwise :: "'x list list"
  prior_masks :: "bool list list"
  data_round_index :: "int list"
  round' :: int
  neural_net :: "'net option"
  x_shape :: "nat list option"
  optimizer :: "'opt option"
  epoch :: nat
  val_log_prob :: float
  bookkeeping :: 'k
  train_log_probs :: "float list"
  validation_log_probs :: "float list"

text \<open>A data loader: \<open>len(loader)\<close> is the number of its batches.\<close>

record ('t, 'x) loader =
  batch_size :: nat
  batches :: "('t list \<times> 'x list) list"

text \<open>
  What training calls and the source files do not hold: the base class's helpers
  (\<open>get_dataloaders\<close>, \<open>_converged\<close>), the network builder, the network's forward pass,
  the optimizer (\<open>backward_step\<close> is \<open>backward\<close>, the clipping and \<open>optimizer.step\<close>), the
  validity of a simulation output (no \<open>NaN\<close>, no \<open>inf\<close>), and the random generator:
  \<open>draw n\<close> gives the outcomes of the draws made by the \<open>n\<close>-th call of \<open>_loss\<close>.
\<close>

record ('t, 'x, 'net, 'opt, 'k) externals =
  valid_x :: "'x \<Rightarrow> bool"
  get_dataloaders ::
    "('t \<times> 'x) list \<Rightarrow> int \<Rightarrow> real \<Rightarrow> bool \<Rightarrow> ('t, 'x) loader \<times> ('t, 'x) loader \<times> nat list"
  build_neural_net :: "'t list \<Rightarrow> 'x list \<Rightarrow> 'net"
  x_shape_from_simulation :: "'x list \<Rightarrow> nat list"
  forward :: "'net \<Rightarrow> 't \<Rightarrow> 'x \<Rightarrow> real"
  adam :: "'net \<Rightarrow> real \<Rightarrow> 'opt"
  backward_step :: "'net \<Rightarrow> 'opt \<Rightarrow> tensor \<Rightarrow> real option \<Rightarrow> 'net \<times> 'opt"
  converged :: "'net option \<Rightarrow> float \<Rightarrow> 'k \<Rightarrow> nat \<Rightarrow> int \<Rightarrow> bool \<times> 'net option \<times> 'k"
  draw :: "nat \<Rightarrow> nat list list \<times> nat list list list"

subsection \<open>Storing simulations\<close>

text \<open>
  Modelled from the spec: \<open>mask_sims_from_prior\<close> is not among the source files; the
  spec's PriorMask is "per-sample boolean, true if a sample's \<theta> was drawn from the prior
  (round 0)".
\<close>

definition mask_sims_from_prior :: "int \<Rightarrow> nat \<Rightarrow> bool list" where
  "mask_sims_from_prior from_round num_simulations = replicate num_simulations (from_round = 0)"

text \<open>
  \<open>append_simulations\<close>. Modelled from the spec: of \<open>validate_theta_and_x\<close>, which is
  not among the source files, the spec says "validates shapes (theta rows == x rows)".
\<close>

definition append_simulations ::
  "('t, 'x, 'net, 'opt, 'k, 'z) training_state_scheme \<Rightarrow> 't list \<Rightarrow> 'x list \<Rightarrow> int
     \<Rightarrow> error + ('t, 'x, 'net, 'opt, 'k, 'z) training_state_scheme" where
  "append_simulations s theta x from_round =
     (if length theta \<noteq> length x then Inl AssertionError
      else Inr (s\<lparr>theta_roundwise := theta_roundwise s @ [theta],
                  x_roundwise := x_roundwise s @ [x],
                  prior_masks := prior_masks s @ [mask_sims_from_prior from_round (length theta)],
                  data_round_index := data_round_index s @ [from_round]\<rparr>))"

subsection \<open>The statements \<open>train\<close> and \<open>anneal\<close> share\<close>

text \<open>\<open>int(discard_prior_samples and self._round > 0)\<close>.\<close>

definition start_idx :: "bool \<Rightarrow> int \<Rightarrow> int" where
  "start_idx discard_prior_samples rnd = (if discard_prior_samples \<and> rnd > 0 then 1 else 0)"

text \<open>Python's \<open>max\<close> of a list; it raises on the empty list.\<close>

definition py_max :: "int list \<Rightarrow> error + int" where
  "py_max xs = (case xs of [] \<Rightarrow> Inl ValueError | y # ys \<Rightarrow> Inr (fold max ys y))"

text \<open>
  Modelled from the spec: \<open>get_simulations\<close> is not among the source files. The source
  calls it with "Starting index for the training set (1 = discard round-0 samples)"; the
  spec says that invalid simulation outputs are "filtered out before training" when
  \<open>exclude_invalid_x\<close> holds. It returns the stored rows of the batches whose round is at
  least \<open>starting_round\<close>, in the order they were appended.
\<close>

definition get_simulations ::
  "('x \<Rightarrow> bool) \<Rightarrow> ('t, 'x, 'net, 'opt, 'k, 'z) training_state_scheme \<Rightarrow> int \<Rightarrow> bool
     \<Rightarrow> 't list \<times> 'x list" where
  "get_simulations valid s starting_round exclude_invalid =
     (let stored = zip (zip (theta_roundwise s) (x_roundwise s)) (data_round_index s);
          since = filter (\<lambda>b. starting_round \<le> snd b) stored;
          rows = concat (map (\<lambda>b. zip (fst (fst b)) (snd (fst b))) since);
          kept = (if exclude_invalid then filter (\<lambda>r. valid (snd r)) rows else rows)
      in (map fst kept, map snd kept))"

text \<open>
  Modelled from the spec: \<open>clamp_and_warn\<close> is not among the source files; the spec says
  the value "is clamped to" the interval of its two bounds.
\<close>

definition clamp_and_warn :: "int \<Rightarrow> int \<Rightarrow> int \<Rightarrow> int" where
  "clamp_and_warn v min_val max_val = max min_val (min v max_val)"

text \<open>
  Lines 172 to 195 of \<open>train\<close> and lines 352 to 375 of \<open>anneal\<close> are the same statements:
  the starting index is computed from the round the object holds, the round is then set
  to the largest stored round index, the simulations are loaded, the loaders are made and
  \<open>num_atoms\<close> is clamped. The result holds the locals \<open>theta\<close>, \<open>x\<close>, the two loaders,
  the training indices and the clamped \<open>num_atoms\<close>, and the object.
\<close>

definition training_setup ::
  "('t, 'x, 'net, 'opt, 'k) externals \<Rightarrow> ('t, 'x, 'net, 'opt, 'k, 'z) training_state_scheme
     \<Rightarrow> int \<Rightarrow> int \<Rightarrow> real \<Rightarrow> bool \<Rightarrow> bool \<Rightarrow> bool
     \<Rightarrow> error + (('t list \<times> 'x list) \<times> (('t, 'x) loader \<times> ('t, 'x) loader \<times> nat list) \<times> int
          \<times> ('t, 'x, 'net, 'opt, 'k, 'z) training_state_scheme)" where
  "training_setup ext s atoms batch_sz val_fraction exclude_invalid resume discard =
     (let idx = start_idx discard (round' s)
      in and_then (py_max (data_round_index s)) (\<lambda>r.
           let s1 = s\<lparr>round' := r\<rparr>;
               sims = get_simulations (valid_x ext) s1 idx exclude_invalid;
               loaders = get_dataloaders ext (zip (fst sims) (snd sims)) batch_sz val_fraction resume;
               val_loader = fst (snd loaders);
               clipped_batch_size = min batch_sz (int (length (batches val_loader)));
               clamped = clamp_and_warn atoms 2 clipped_batch_size
           in Inr (sims, loaders, clamped, s1)))"

subsection \<open>One minibatch\<close>

text \<open>
  A Python value that \<open>torch.mean\<close> can be handed: a tensor or a tuple. \<open>torch.mean\<close>
  accepts a tensor only, and a tuple has no method \<open>sum\<close>.
\<close>

datatype pyobj = PyTensor tensor | PyTuple "pyobj list"

fun torch_mean :: "pyobj \<Rightarrow> error + tensor" where
  "torch_mean (PyTensor t) = Inr (Scalar (fmean (entries t)))"
| "torch_mean (PyTuple vs) = Inl TypeError"

text \<open>\<open>v.sum().item()\<close>.\<close>

fun sum_item :: "pyobj \<Rightarrow> error + float" where
  "sum_item (PyTensor t) = Inr (fsum (entries t))"
| "sum_item (PyTuple vs) = Inl AttributeError"

text \<open>Python's \<open>a / b\<close> for a float and an int.\<close>

definition py_div :: "float \<Rightarrow> nat \<Rightarrow> error + float" where
  "py_div a b = (if b = 0 then Inl ZeroDivisionError else Inr (lift1 (\<lambda>u. u / real b) a))"

text \<open>A \<open>for\<close> loop over a list whose body can raise.\<close>

fun for_each :: "('s \<Rightarrow> 'b \<Rightarrow> error + 's) \<Rightarrow> 'b list \<Rightarrow> 's \<Rightarrow> error + 's" where
  "for_each body [] acc = Inr acc"
| "for_each body (b # bs) acc = and_then (body acc b) (for_each body bs)"

text \<open>
  The body of the loop over \<open>train_loader\<close>, in \<open>train\<close> (lines 225 to 243) and in
  \<open>anneal\<close> (lines 409 to 427). The accumulator holds the network and the optimizer,
  \<open>train_log_probs_sum\<close> and the number of calls of \<open>_loss\<close> made so far. \<open>train\<close> unpacks
  the triple \<open>_loss\<close> returns and keeps its third component; \<open>anneal\<close> binds
  \<open>train_losses\<close> to the triple itself.
\<close>

definition train_batch ::
  "('t, 'x, 'net, 'opt, 'k) externals \<Rightarrow> nat \<Rightarrow> real option \<Rightarrow> real option
     \<Rightarrow> ('net \<times> 'opt option) \<times> float \<times> nat \<Rightarrow> 't list \<times> 'x list
     \<Rightarrow> error + (('net \<times> 'opt option) \<times> float \<times> nat)" where
  "train_batch ext atoms multiplier clip acc batch =
     (let net = fst (fst acc); total = fst (snd acc); n = snd (snd acc)
      in case snd (fst acc) of
           None \<Rightarrow> Inl AttributeError
         | Some opt \<Rightarrow>
             and_then
               (loss (forward ext net) (fst batch) (snd batch) atoms multiplier
                  (fst (draw ext n)) (snd (draw ext n))) (\<lambda>losses.
             let train_losses = PyTensor (snd (snd losses))
             in and_then (torch_mean train_losses) (\<lambda>train_loss.
                and_then (sum_item train_losses) (\<lambda>v.
                  let upd = backward_step ext net opt train_loss clip
                  in Inr ((fst upd, Some (snd upd)), lift2 (-) total v, Suc n)))))"

definition anneal_batch ::
  "('t, 'x, 'net, 'opt, 'k) externals \<Rightarrow> nat \<Rightarrow> real option \<Rightarrow> real option
     \<Rightarrow> ('net \<times> 'opt option) \<times> float \<times> nat \<Rightarrow> 't list \<times> 'x list
     \<Rightarrow> error + (('net \<times> 'opt option) \<times> float \<times> nat)" where
  "anneal_batch ext atoms multiplier clip acc batch =
     (let net = fst (fst acc); total = fst (snd acc); n = snd (snd acc)
      in case snd (fst acc) of
           None \<Rightarrow> Inl AttributeError
         | Some opt \<Rightarrow>
             and_then
               (loss (forward ext net) (fst batch) (snd batch) atoms multiplier
                  (fst (draw ext n)) (snd (draw ext n))) (\<lambda>losses.
             let train_losses =
                   PyTuple [PyTensor (fst losses), PyTensor (fst (snd losses)),
                            PyTensor (snd (snd losses))]
             in and_then (torch_mean train_losses) (\<lambda>train_loss.
                and_then (sum_item train_losses) (\<lambda>v.
                  let upd = backward_step ext net opt train_loss clip
                  in Inr ((fst upd, Some (snd upd)), lift2 (-) total v, Suc n)))))"

text \<open>
  The body of the loop over \<open>val_loader\<close> in \<open>anneal\<close> (lines 440 to 448); the
  accumulator holds \<open>val_log_prob_sum\<close> and the number of calls of \<open>_loss\<close>.
\<close>

definition anneal_val_batch ::
  "('t, 'x, 'net, 'opt, 'k) externals \<Rightarrow> nat \<Rightarrow> real option \<Rightarrow> 'net
     \<Rightarrow> float \<times> nat \<Rightarrow> 't list \<times> 'x list \<Rightarrow> error + (float \<times> nat)" where
  "anneal_val_batch ext atoms multiplier net acc batch =
     (let total = fst acc; n = snd acc
      in and_then
           (loss (forward ext net) (fst batch) (snd batch) atoms multiplier
              (fst (draw ext n)) (snd (draw ext n))) (\<lambda>losses.
         let val_losses =
               PyTuple [PyTensor (fst losses), PyTensor (fst (snd losses)),
                        PyTensor (snd (snd losses))]
         in and_then (sum_item val_losses) (\<lambda>v. Inr (lift2 (-) total v, Suc n))))"

subsection \<open>Annealed training\<close>

text \<open>
  \<open>law_of_cooling\<close>, the lambda of \<open>anneal\<close>, with the local \<open>epsilon\<close> as an argument.
  \<open>lagrange_multiplier\<close> defaults to \<open>None\<close>, and arithmetic on \<open>None\<close> raises.
\<close>

definition law_of_cooling :: "real option \<Rightarrow> real \<Rightarrow> real \<Rightarrow> nat \<Rightarrow> error + real" where
  "law_of_cooling multiplier epsilon rate e =
     (case multiplier of
        None \<Rightarrow> Inl TypeError
      | Some l \<Rightarrow> Inr (l + (epsilon - l) * exp (- rate * real e)))"

text \<open>
  The arguments of \<open>anneal\<close>. \<open>show_train_summary\<close> and \<open>dataloader_kwargs\<close> are left
  out: the first only prints, the second is handed on to \<open>get_dataloaders\<close>.
\<close>

record anneal_args =
  num_atoms :: int
  training_batch_size :: int
  learning_rate :: real
  lagrange_multiplier :: "real option"
  annealing_rate :: real
  validation_fraction :: real
  stop_after_epochs :: int
  max_num_epochs :: int
  clip_max_norm :: "real option"
  exclude_invalid_x :: bool
  resume_training :: bool
  discard_prior_samples :: bool
  retrain_from_scratch :: bool

text \<open>
  The \<open>while\<close> loop of \<open>anneal\<close> (lines 397 to 456). \<open>_converged\<close> is called and its
  boolean dropped; the multiplier of the epoch is computed from \<open>self.epoch\<close>; the
  training pass, \<open>self.epoch += 1\<close>, the average, the validation pass with the multiplier
  that was passed in, and the new \<open>_val_log_prob\<close> follow. \<open>n\<close> counts the calls of
  \<open>_loss\<close>.
\<close>

function anneal_loop ::
  "('t, 'x, 'net, 'opt, 'k) externals \<Rightarrow> anneal_args \<Rightarrow> ('t, 'x) loader \<Rightarrow> ('t, 'x) loader
     \<Rightarrow> nat \<Rightarrow> ('t, 'x, 'net, 'opt, 'k, 'z) training_state_scheme \<Rightarrow> nat
     \<Rightarrow> error + (('t, 'x, 'net, 'opt, 'k, 'z) training_state_scheme \<times> nat)" where
  "anneal_loop ext a train_loader val_loader atoms s n =
     (if int (epoch s) < max_num_epochs a then
        (let c = converged ext (neural_net s) (val_log_prob s) (bookkeeping s) (epoch s)
                   (stop_after_epochs a);
             s1 = s\<lparr>neural_net := fst (snd c), bookkeeping := snd (snd c)\<rparr>
         in case law_of_cooling (lagrange_multiplier a) 0.01 (annealing_rate a) (epoch s) of
              Inl e \<Rightarrow> Inl e
            | Inr annealed_lagrange_multiplier \<Rightarrow>
          (case neural_net s1 of
             None \<Rightarrow> Inl AttributeError
           | Some net \<Rightarrow>
          (case for_each
                  (anneal_batch ext atoms (Some annealed_lagrange_multiplier) (clip_max_norm a))
                  (batches train_loader) ((net, optimizer s1), Some 0, n) of
             Inl e \<Rightarrow> Inl e
           | Inr tr \<Rightarrow>
          (case py_div (fst (snd tr)) (length (batches train_loader) * batch_size train_loader) of
             Inl e \<Rightarrow> Inl e
           | Inr train_log_prob_average \<Rightarrow>
          (case for_each (anneal_val_batch ext atoms (lagrange_multiplier a) (fst (fst tr)))
                  (batches val_loader) (Some 0, snd (snd tr)) of
             Inl e \<Rightarrow> Inl e
           | Inr va \<Rightarrow>
          (case py_div (fst va) (length (batches val_loader) * batch_size val_loader) of
             Inl e \<Rightarrow> Inl e
           | Inr v \<Rightarrow>
               anneal_loop ext a train_loader val_loader atoms
                 (s\<lparr>neural_net := Some (fst (fst tr)), bookkeeping := snd (snd c),
                    optimizer := snd (fst tr), epoch := epoch s + 1,
                    train_log_probs := train_log_probs s @ [train_log_prob_average],
                    val_log_prob := v,
                    validation_log_probs := validation_log_probs s @ [v]\<rparr>)
                 (snd va)))))))
      else Inr (s, n))"
  by pat_completeness auto
termination
  by (relation "measure (\<lambda>(ext, a, train_loader, val_loader, atoms, s, n).
        nat (max_num_epochs a) - epoch s)") auto

declare anneal_loop.simps [simp del]

text \<open>\<open>tensor[indices]\<close> for a list of row indices.\<close>

definition select_rows :: "'a list \<Rightarrow> nat list \<Rightarrow> error + 'a list" where
  "select_rows tensor indices =
     (if list_all (\<lambda>i. i < length tensor) indices then Inr (map (\<lambda>i. tensor ! i) indices)
      else Inl IndexError)"

text \<open>
  \<open>RatioEstimator.anneal\<close>. It returns the copy of the trained network, the object and
  the number of calls of \<open>_loss\<close>. What follows the loop in the source only reports and
  logs (\<open>_report_convergence_at_end\<close>, the summary, \<open>_summarize\<close>) and is left out.
\<close>

definition anneal ::
  "('t, 'x, 'net, 'opt, 'k) externals \<Rightarrow> anneal_args
     \<Rightarrow> ('t, 'x, 'net, 'opt, 'k, 'z) training_state_scheme \<Rightarrow> nat
     \<Rightarrow> error + ('net option \<times> ('t, 'x, 'net, 'opt, 'k, 'z) training_state_scheme \<times> nat)" where
  "anneal ext a s n =
     (if \<not> annealing_rate a > 0 then Inl AssertionError
      else
        and_then
          (training_setup ext s (num_atoms a) (training_batch_size a) (validation_fraction a)
             (exclude_invalid_x a) (resume_training a) (discard_prior_samples a)) (\<lambda>r.
        let theta = fst (fst r); x = snd (fst r);
            train_loader = fst (fst (snd r)); val_loader = fst (snd (fst (snd r)));
            train_indices = snd (snd (fst (snd r)));
            atoms = fst (snd (snd r)); s1 = snd (snd (snd r))
        in and_then
             (if neural_net s1 = None \<or> retrain_from_scratch a then
                and_then (select_rows theta train_indices) (\<lambda>th.
                and_then (select_rows x train_indices) (\<lambda>xs.
                  Inr (s1\<lparr>neural_net := Some (build_neural_net ext th xs),
                           x_shape := Some (x_shape_from_simulation ext x)\<rparr>)))
              else Inr s1) (\<lambda>s2.
           and_then
             (if \<not> resume_training a then
                (case neural_net s2 of
                   None \<Rightarrow> Inl AttributeError
                 | Some net \<Rightarrow>
                     Inr (s2\<lparr>optimizer := Some (adam ext net (learning_rate a)), epoch := 0,
                              val_log_prob := None\<rparr>))
              else Inr s2) (\<lambda>s3.
           and_then (anneal_loop ext a train_loader val_loader (nat atoms) s3 n) (\<lambda>done.
             Inr (neural_net (fst done), fst done, snd done))))))"

section \<open>Posterior builder\<close>

text \<open>
  The two posterior classes, with the keyword arguments \<open>build_posterior\<close> gives them:
  the potential function, the transform (Markov chain only), the proposal, the method
  (Markov chain only), the device, the shape of \<open>x\<close> and the caller's extra arguments.
\<close>

datatype ('pot, 'tr, 'prior) posterior =
  MCMCPosterior 'pot 'tr 'prior string string "nat list option" "(string \<times> string) list"
  | RejectionPosterior 'pot 'prior string "nat list option" "(string \<times> string) list"

fun potential_fn :: "('pot, 'tr, 'prior) posterior \<Rightarrow> 'pot" where
  "potential_fn (MCMCPosterior pot tr proposal method dev shp kw) = pot"
| "potential_fn (RejectionPosterior pot proposal dev shp kw) = pot"

fun posterior_device :: "('pot, 'tr, 'prior) posterior \<Rightarrow> string" where
  "posterior_device (MCMCPosterior pot tr proposal method dev shp kw) = dev"
| "posterior_device (RejectionPosterior pot proposal dev shp kw) = dev"

record ('t, 'x, 'net, 'opt, 'k, 'prior, 'pot, 'tr) ratio_estimator =
  "('t, 'x, 'net, 'opt, 'k) training_state" +
  prior :: "'prior option"
  device :: string
  posterior :: "('pot, 'tr, 'prior) posterior option"
  model_bank :: "('pot, 'tr, 'prior) posterior list"

text \<open>
  \<open>RatioEstimator.build_posterior\<close>. It returns what the call returns or raises, and the
  object after the call. \<open>parameters_devices\<close> gives the device types of the parameters
  of a network, in the order of \<open>parameters()\<close>; \<open>next\<close> of an empty iterator raises.
  \<open>potential\<close> is \<open>ratio_estimator_based_potential\<close> with \<open>x_o = None\<close>, which is not among
  the source files.
\<close>

definition build_posterior ::
  "('net \<Rightarrow> string list) \<Rightarrow> ('net option \<Rightarrow> 'prior \<Rightarrow> error + ('pot \<times> 'tr))
     \<Rightarrow> ('t, 'x, 'net, 'opt, 'k, 'prior, 'pot, 'tr) ratio_estimator
     \<Rightarrow> 'net option \<Rightarrow> 'prior option \<Rightarrow> string \<Rightarrow> string
     \<Rightarrow> (string \<times> string) list \<Rightarrow> (string \<times> string) list
     \<Rightarrow> (error + ('pot, 'tr, 'prior) posterior)
          \<times> ('t, 'x, 'net, 'opt, 'k, 'prior, 'pot, 'tr) ratio_estimator" where
  "build_posterior parameters_devices potential s density_estimator prior_arg sample_with
     mcmc_method mcmc_parameters rejection_sampling_parameters =
     (case (case prior_arg of
              None \<Rightarrow> (case prior s of None \<Rightarrow> Inl AssertionError | Some p \<Rightarrow> Inr p)
            | Some p \<Rightarrow> Inr p) of
        Inl e \<Rightarrow> (Inl e, s)
      | Inr p \<Rightarrow>
     (case (case density_estimator of
              None \<Rightarrow> Inr (device s)
            | Some estimator \<Rightarrow>
                (case parameters_devices estimator of
                   [] \<Rightarrow> Inl StopIteration
                 | d # ds \<Rightarrow> Inr d)) of
        Inl e \<Rightarrow> (Inl e, s)
      | Inr dev \<Rightarrow>
     (case potential (neural_net s) p of
        Inl e \<Rightarrow> (Inl e, s)
      | Inr pt \<Rightarrow>
          if sample_with = ''mcmc'' then
            (let post = MCMCPosterior (fst pt) (snd pt) p mcmc_method dev (x_shape s)
                          mcmc_parameters
             in (Inr post, s\<lparr>posterior := Some post, model_bank := model_bank s @ [post]\<rparr>))
          else if sample_with = ''rejection'' then
            (let post = RejectionPosterior (fst pt) p dev (x_shape s)
                          rejection_sampling_parameters
             in (Inr post, s\<lparr>posterior := Some post, model_bank := model_bank s @ [post]\<rparr>))
          else if sample_with = ''vi'' then (Inl NotImplementedError, s)
          else (Inl NotImplementedError, s))))"

text \<open>
  Modelled from the spec: the constructor of the base class is not among the source
  files. A new object holds no simulations, no network and no posterior, and it is in
  round 0, the round of the prior; the prior and the device are the constructor's
  arguments.
\<close>

definition new_estimator ::
  "'prior option \<Rightarrow> string \<Rightarrow> 'k \<Rightarrow> ('t, 'x, 'net, 'opt, 'k, 'prior, 'pot, 'tr) ratio_estimator" where
  "new_estimator prior_arg device_arg k =
     \<lparr>theta_roundwise = [], x_roundwise = [], prior_masks = [], data_round_index = [],
      round' = 0, neural_net = None, x_shape = None, optimizer = None, epoch = 0,
      val_log_prob = None, bookkeeping = k, train_log_probs = [], validation_log_probs = [],
      prior = prior_arg, device = device_arg, posterior = None, model_bank = []\<rparr>"

section \<open>A small run\<close>

text \<open>
  Values for the worked examples. \<open>loader_of\<close> is a loader that does not shuffle and
  drops the last incomplete batch; \<open>demo_dataloaders k\<close> gives the first \<open>k\<close> rows to
  training and the rest to validation. In \<open>demo_externals\<close> every row is valid, the
  classifier answers 0, the optimizer leaves the network as it is, the convergence check
  never reports convergence, and every call of \<open>_loss\<close> draws the same outcomes, which
  are possible ones for a batch of three rows and two atoms.
\<close>

definition loader_of :: "nat \<Rightarrow> ('t \<times> 'x) list \<Rightarrow> ('t, 'x) loader" where
  "loader_of b rows =
     \<lparr>batch_size = b,
      batches = map (\<lambda>r. (map fst (take b (drop (r * b) rows)), map snd (take b (drop (r * b) rows))))
                  [0..<length rows div b]\<rparr>"

definition demo_dataloaders ::
  "nat \<Rightarrow> ('t \<times> 'x) list \<Rightarrow> int \<Rightarrow> real \<Rightarrow> bool \<Rightarrow> ('t, 'x) loader \<times> ('t, 'x) loader \<times> nat list" where
  "demo_dataloaders k rows b v r =
     (loader_of (nat b) (take k rows), loader_of (nat b) (drop k rows), [0..<k])"

definition demo_externals :: "nat \<Rightarrow> (nat, nat, unit, unit, unit) externals" where
  "demo_externals k =
     \<lparr>valid_x = (\<lambda>x. True),
      get_dataloaders = demo_dataloaders k,
      build_neural_net = (\<lambda>th xs. ()),
      x_shape_from_simulation = (\<lambda>xs. [1]),
      forward = (\<lambda>net t x. 0),
      adam = (\<lambda>net lr. ()),
      backward_step = (\<lambda>net opt t c. (net, opt)),
      converged = (\<lambda>net v k e st. (False, net, k)),
      draw = (\<lambda>n. ([[1], [2], [0]], [[[1], [0]], [[1], [0]], [[1], [0]]]))\<rparr>"

definition demo_args :: anneal_args where
  "demo_args =
     \<lparr>num_atoms = 2, training_batch_size = 3, learning_rate = 5 / 10000,
      lagrange_multiplier = Some (1 / 2), annealing_rate = 1 / 10, validation_fraction = 1 / 2,
      stop_after_epochs = 2147483647, max_num_epochs = 100, clip_max_norm = Some 5,
      exclude_invalid_x = True, resume_training = False, discard_prior_samples = False,
      retrain_from_scratch = False\<rparr>"

text \<open>A new object with six rows of round 0 stored.\<close>

definition demo_estimator ::
  "(nat, nat, unit, unit, unit, unit, unit, unit) ratio_estimator" where
  "demo_estimator =
     (new_estimator (Some ()) ''cpu'' ())
       \<lparr>theta_roundwise := [[0, 1, 2, 3, 4, 5]], x_roundwise := [[0, 1, 2, 3, 4, 5]],
        prior_masks := [replicate 6 True], data_round_index := [0]\<rparr>"

section \<open>The reference value of the correction term\<close>

text \<open>
  The value the spec compares the correction term with, written from the spec's words:
  for each row of logits, the logarithm of the mean, over the entries of the row, of the
  exponential of the negative entropy, where the negative entropy of a logit is the
  negated binary cross-entropy between the logit and its own sigmoid.
\<close>

definition negative_entropy :: "float \<Rightarrow> float" where
  "negative_entropy l = lift1 uminus (lift2 bce_entry l (lift1 sigmoid l))"

definition naive_correction :: "float list list \<Rightarrow> tensor" where
  "naive_correction rows =
     Vector (map (\<lambda>row. flog (fmean (map (\<lambda>l. lift1 exp (negative_entropy l)) row))) rows)"

section \<open>Properties of the atomic sampler\<close>

lemma concat_uniform_length:
  "list_all (\<lambda>xs. length xs = K) xss \<Longrightarrow> length (concat xss) = length xss * K"
  by (induction xss) auto

lemma concat_uniform_nth:
  "list_all (\<lambda>xs. length xs = K) xss \<Longrightarrow> i < length xss \<Longrightarrow> m < K \<Longrightarrow>
   concat xss ! (i * K + m) = xss ! i ! m"
proof (induction xss arbitrary: i)
  case Nil
  then show ?case by simp
next
  case (Cons ys xss)
  show ?case
  proof (cases i)
    case 0
    with Cons.prems show ?thesis by (simp add: nth_append)
  next
    case (Suc j)
    with Cons.prems have "concat xss ! (j * K + m) = xss ! j ! m"
      using Cons.IH [of j] by simp
    moreover have "Suc j * K + m = K + (j * K + m)" by simp
    ultimately show ?thesis using Cons.prems Suc by (simp add: nth_append)
  qed
qed

lemma probs_length: "length (off_diagonal_probs b) = b"
  by (simp add: off_diagonal_probs_def ones_def eye_def)

lemma probs_row:
  assumes "r < b" "2 \<le> b"
  shows "off_diagonal_probs b ! r =
     map (\<lambda>c. Some (if r = c then 0 else 1 / (real b - 1))) [0..<b]"
proof -
  have "real b - 1 \<noteq> 0" using assms by simp
  then show ?thesis using assms
    by (auto simp: off_diagonal_probs_def ones_def eye_def fdiv_def list_eq_iff_nth_eq)
qed

lemma probs_support:
  assumes "r < b" "2 \<le> b"
  shows "support (off_diagonal_probs b ! r) = filter (\<lambda>c. c \<noteq> r) [0..<b]"
proof -
  have pos: "0 < 1 / (real b - 1)" using assms by simp
  show ?thesis
    unfolding support_def probs_row [OF assms]
    using pos by (auto intro!: filter_cong simp: positive_weight_def)
qed

lemma length_filter_neq:
  "r < b \<Longrightarrow> length (filter (\<lambda>c. c \<noteq> r) [0..<b]) = b - 1"
proof -
  assume "r < b"
  have "length (filter (\<lambda>c. c \<noteq> r) [0..<b]) = card {c. c < b \<and> c \<noteq> r}"
    by (subst distinct_card [symmetric]) (auto intro: arg_cong [where f = card])
  also have "{c. c < b \<and> c \<noteq> r} = {..<b} - {r}" by auto
  also have "card \<dots> = b - 1" using \<open>r < b\<close> by simp
  finally show ?thesis .
qed

lemma probs_row_ok:
  assumes "r < b" "2 \<le> b" "0 < n" "n \<le> b - 1"
  shows "row_ok n (off_diagonal_probs b ! r)"
  unfolding row_ok_def probs_support [OF assms(1,2)] length_filter_neq [OF assms(1)]
  using assms by (simp add: probs_row list_all_iff finite_weight_def)

lemma probs_all_ok:
  assumes "2 \<le> b" "0 < n" "n \<le> b - 1"
  shows "list_all (row_ok n) (off_diagonal_probs b)"
  unfolding list_all_length probs_length using probs_row_ok assms by blast

lemma outcome_row:
  assumes "is_outcome (off_diagonal_probs N) n outcome" "2 \<le> N" "i < N"
  shows "length (outcome ! i) = n" "distinct (outcome ! i)"
    "set (outcome ! i) \<subseteq> {c. c < N \<and> c \<noteq> i}"
proof -
  have "list_all2 (\<lambda>p cs. is_draw p n cs) (off_diagonal_probs N) outcome"
    using assms(1) unfolding is_outcome_def by blast
  moreover have "i < length (off_diagonal_probs N)" using assms(3) by (simp only: probs_length)
  ultimately have "is_draw (off_diagonal_probs N ! i) n (outcome ! i)"
    by (rule list_all2_nthD)
  then have d: "length (outcome ! i) = n \<and> distinct (outcome ! i) \<and>
      list_all (\<lambda>c. c \<in> set (filter (\<lambda>c. c \<noteq> i) [0..<N])) (outcome ! i)"
    unfolding is_draw_def probs_support [OF assms(3,2)] .
  show "length (outcome ! i) = n" using d by simp
  show "distinct (outcome ! i)" using d by simp
  show "set (outcome ! i) \<subseteq> {c. c < N \<and> c \<noteq> i}"
    using d by (auto simp: list_all_iff)
qed

lemma outcome_length: "is_outcome probs n outcome \<Longrightarrow> length outcome = length probs"
  by (simp add: is_outcome_def)

lemma repeat_rows_length: "length (repeat_rows x K) = length x * K"
  unfolding repeat_rows_def by (subst concat_uniform_length [where K = K]) (auto simp: list_all_iff)

lemma repeat_rows_nth: "i < length x \<Longrightarrow> m < K \<Longrightarrow> repeat_rows x K ! (i * K + m) = x ! i"
  unfolding repeat_rows_def by (subst concat_uniform_nth [where K = K]) (auto simp: list_all_iff)

lemma atomic_theta_value:
  assumes "2 \<le> N" "length theta = N" "2 \<le> K" "K \<le> N"
    and out: "is_outcome (off_diagonal_probs N) (K - 1) outcome"
  shows "atomic_theta theta K outcome =
     Inr (concat (map2 (\<lambda>t cs. t # cs) theta (map (map (\<lambda>c. theta ! c)) outcome)))"
proof -
  have ok: "list_all (row_ok (K - 1)) (off_diagonal_probs N)"
    using assms by (intro probs_all_ok) auto
  have len: "length outcome = N" using outcome_length [OF out] by (simp add: probs_length)
  have "list_all (list_all (\<lambda>c. c < length theta)) outcome"
    unfolding list_all_length
  proof (intro allI impI)
    fix i m assume "i < length outcome" "m < length (outcome ! i)"
    then have "outcome ! i ! m \<in> set (outcome ! i)" "i < N" using len by auto
    then show "outcome ! i ! m < length theta"
      using outcome_row(3) [OF out assms(1)] assms(2) by auto
  qed
  then show ?thesis using ok assms(2)
    by (simp add: atomic_theta_def multinomial_def index_rows_def)
qed

text \<open>
  C5. For every batch size \<open>N \<ge> 3\<close>, every atom count \<open>2 \<le> K \<le> N\<close> and every
  possible outcome of the draw without replacement, \<open>_classifier_logits\<close> hands the
  classifier exactly \<open>N * K\<close> rows; in the atom set of anchor \<open>i\<close> (rows \<open>i * K\<close> to
  \<open>i * K + K - 1\<close>) the true \<open>theta ! i\<close> is at position 0, followed by the
  \<open>K - 1\<close> rows of \<open>theta\<close> at the pairwise different indices drawn for \<open>i\<close>, none of
  which is \<open>i\<close>; \<open>x ! i\<close> is repeated along the whole atom set.
\<close>

theorem primary_atomic_batch:
  assumes "3 \<le> N" "length theta = N" "length x = N" "2 \<le> K" "K \<le> N"
    and out: "is_outcome (off_diagonal_probs N) (K - 1) outcome"
  shows "\<exists>atomic.
     atomic_theta theta K outcome = Inr atomic \<and>
     classifier_logits net theta x K outcome =
       Inr (map2 net atomic (repeat_rows x K)) \<and>
     length atomic = N * K \<and> length (repeat_rows x K) = N * K \<and>
     (\<forall>i<N. atomic ! (i * K) = theta ! i \<and> repeat_rows x K ! (i * K) = x ! i \<and>
        length (outcome ! i) = K - 1 \<and> distinct (outcome ! i) \<and>
        (\<forall>m<K - 1. outcome ! i ! m < N \<and> outcome ! i ! m \<noteq> i \<and>
           atomic ! (i * K + Suc m) = theta ! (outcome ! i ! m) \<and>
           repeat_rows x K ! (i * K + Suc m) = x ! i))"
proof -
  define rows where "rows = map2 (\<lambda>t cs. t # cs) theta (map (map (\<lambda>c. theta ! c)) outcome)"
  have N2: "2 \<le> N" using assms(1) by simp
  have len: "length outcome = N" using outcome_length [OF out] by (simp add: probs_length)
  have val: "atomic_theta theta K outcome = Inr (concat rows)"
    unfolding rows_def by (rule atomic_theta_value [OF N2 assms(2,4,5) out])
  have rows_len: "length rows = N" using len assms(2) by (simp add: rows_def)
  have row: "rows ! i = theta ! i # map (\<lambda>c. theta ! c) (outcome ! i)" if "i < N" for i
    using that len assms(2) by (simp add: rows_def)
  have uniform: "list_all (\<lambda>r. length r = K) rows"
    unfolding list_all_length
  proof (intro allI impI)
    fix i assume "i < length rows"
    then have "i < N" using rows_len by simp
    then show "length (rows ! i) = K"
      using row [of i] outcome_row(1) [OF out N2, of i] assms(4) by simp
  qed
  have "\<forall>i<N. concat rows ! (i * K) = theta ! i \<and> repeat_rows x K ! (i * K) = x ! i \<and>
        length (outcome ! i) = K - 1 \<and> distinct (outcome ! i) \<and>
        (\<forall>m<K - 1. outcome ! i ! m < N \<and> outcome ! i ! m \<noteq> i \<and>
           concat rows ! (i * K + Suc m) = theta ! (outcome ! i ! m) \<and>
           repeat_rows x K ! (i * K + Suc m) = x ! i)"
  proof (intro allI impI)
    fix i assume i: "i < N"
    have l: "length (outcome ! i) = K - 1" and d: "distinct (outcome ! i)"
      and s: "set (outcome ! i) \<subseteq> {c. c < N \<and> c \<noteq> i}"
      using outcome_row [OF out N2 i] by auto
    have first: "concat rows ! (i * K) = theta ! i"
      using concat_uniform_nth [OF uniform, of i 0] i rows_len assms(4) row [OF i] by simp
    have firstx: "repeat_rows x K ! (i * K) = x ! i"
      using repeat_rows_nth [of i x 0 K] i assms(3,4) by simp
    have rest: "outcome ! i ! m < N \<and> outcome ! i ! m \<noteq> i \<and>
           concat rows ! (i * K + Suc m) = theta ! (outcome ! i ! m) \<and>
           repeat_rows x K ! (i * K + Suc m) = x ! i" if m: "m < K - 1" for m
    proof -
      have mem: "outcome ! i ! m \<in> set (outcome ! i)" using m l by simp
      have "concat rows ! (i * K + Suc m) = rows ! i ! Suc m"
        using concat_uniform_nth [OF uniform, of i "Suc m"] i rows_len m by simp
      then have "concat rows ! (i * K + Suc m) = theta ! (outcome ! i ! m)"
        using row [OF i] m l by simp
      moreover have "repeat_rows x K ! (i * K + Suc m) = x ! i"
        using repeat_rows_nth [of i x "Suc m" K] i assms(3) m by simp
      ultimately show ?thesis using mem s by auto
    qed
    show "concat rows ! (i * K) = theta ! i \<and> repeat_rows x K ! (i * K) = x ! i \<and>
        length (outcome ! i) = K - 1 \<and> distinct (outcome ! i) \<and>
        (\<forall>m<K - 1. outcome ! i ! m < N \<and> outcome ! i ! m \<noteq> i \<and>
           concat rows ! (i * K + Suc m) = theta ! (outcome ! i ! m) \<and>
           repeat_rows x K ! (i * K + Suc m) = x ! i)"
      using first firstx l d rest by blast
  qed
  moreover have "length (concat rows) = N * K"
    using concat_uniform_length [OF uniform] rows_len by simp
  moreover have "length (repeat_rows x K) = N * K"
    using repeat_rows_length [of x K] assms(3) by simp
  moreover have "classifier_logits net theta x K outcome =
       Inr (map2 net (concat rows) (repeat_rows x K))"
    using val by (simp add: classifier_logits_def)
  ultimately show ?thesis using val by blast
qed

text \<open>The theorem at \<open>N = 3\<close>, \<open>K = 3\<close>: the atom set of anchor 1.\<close>

theorem primary_atomic_batch_witness:
  "\<exists>atomic.
     atomic_theta [10, 20, 30 :: nat] 3 [[1, 2], [2, 0], [0, 1]] = Inr atomic \<and>
     length atomic = 9 \<and> atomic ! 3 = 20 \<and> atomic ! 4 = 30"
proof -
  let ?theta = "[10, 20, 30 :: nat]"
  let ?outcome = "[[1, 2], [2, 0], [0, 1 :: nat]]"
  have out: "is_outcome (off_diagonal_probs 3) (3 - 1) ?outcome"
    by code_simp
  have "\<exists>atomic.
     atomic_theta ?theta 3 ?outcome = Inr atomic \<and>
     classifier_logits (\<lambda>t x. 0) ?theta [1, 2, 3 :: nat] 3 ?outcome =
       Inr (map2 (\<lambda>t x. 0) atomic (repeat_rows [1, 2, 3 :: nat] 3)) \<and>
     length atomic = 3 * 3 \<and> length (repeat_rows [1, 2, 3 :: nat] 3) = 3 * 3 \<and>
     (\<forall>i<3. atomic ! (i * 3) = ?theta ! i \<and> repeat_rows [1, 2, 3 :: nat] 3 ! (i * 3) = [1, 2, 3] ! i \<and>
        length (?outcome ! i) = 3 - 1 \<and> distinct (?outcome ! i) \<and>
        (\<forall>m<3 - 1. ?outcome ! i ! m < 3 \<and> ?outcome ! i ! m \<noteq> i \<and>
           atomic ! (i * 3 + Suc m) = ?theta ! (?outcome ! i ! m) \<and>
           repeat_rows [1, 2, 3 :: nat] 3 ! (i * 3 + Suc m) = [1, 2, 3] ! i))"
    by (rule primary_atomic_batch [OF _ _ _ _ _ out]) simp_all
  then obtain atomic where a: "atomic_theta ?theta 3 ?outcome = Inr atomic"
    and l: "length atomic = 3 * 3"
    and all: "\<forall>i<3. atomic ! (i * 3) = ?theta ! i \<and> repeat_rows [1, 2, 3 :: nat] 3 ! (i * 3) = [1, 2, 3] ! i \<and>
        length (?outcome ! i) = 3 - 1 \<and> distinct (?outcome ! i) \<and>
        (\<forall>m<3 - 1. ?outcome ! i ! m < 3 \<and> ?outcome ! i ! m \<noteq> i \<and>
           atomic ! (i * 3 + Suc m) = ?theta ! (?outcome ! i ! m) \<and>
           repeat_rows [1, 2, 3 :: nat] 3 ! (i * 3 + Suc m) = [1, 2, 3] ! i)"
    by blast
  have one: "(1::nat) < 3" by simp
  from all [rule_format, OF one] have first: "atomic ! (1 * 3) = ?theta ! 1"
    and rest: "\<forall>m<3 - 1. ?outcome ! 1 ! m < 3 \<and> ?outcome ! 1 ! m \<noteq> 1 \<and>
           atomic ! (1 * 3 + Suc m) = ?theta ! (?outcome ! 1 ! m) \<and>
           repeat_rows [1, 2, 3 :: nat] 3 ! (1 * 3 + Suc m) = [1, 2, 3] ! 1"
    by blast+
  have zero: "(0::nat) < 3 - 1" by simp
  from rest [rule_format, OF zero]
  have second: "atomic ! (1 * 3 + Suc 0) = ?theta ! (?outcome ! 1 ! 0)" by blast
  from first have "atomic ! 3 = 20" by simp
  moreover from second have "atomic ! 4 = 30" by simp
  ultimately show ?thesis using a l by simp
qed

text \<open>
  With three rows and two atoms the draw has one possible outcome, and
  \<open>theta[choices]\<close> reads it as row indices of the whole batch.
\<close>

lemma forced_outcome:
  assumes "is_outcome (off_diagonal_probs 2) 1 outcome"
  shows "outcome = [[1], [0]]"
proof -
  have len: "length outcome = 2" using outcome_length [OF assms] by (simp add: probs_length)
  have r0: "length (outcome ! 0) = 1" "set (outcome ! 0) \<subseteq> {c. c < 2 \<and> c \<noteq> 0}"
    using outcome_row [OF assms, of 0] by auto
  have r1: "length (outcome ! 1) = 1" "set (outcome ! 1) \<subseteq> {c. c < 2 \<and> c \<noteq> 1}"
    using outcome_row [OF assms, of 1] by auto
  obtain a where a: "outcome ! 0 = [a]" using r0(1) by (cases "outcome ! 0") auto
  obtain b where b: "outcome ! 1 = [b]" using r1(1) by (cases "outcome ! 1") auto
  have "a = 1" using r0(2) a by auto
  moreover have "b = 0" using r1(2) b by auto
  moreover obtain u v where "outcome = [u, v]" using len
    by (cases outcome; cases "tl outcome"; cases "tl (tl outcome)") auto
  ultimately show ?thesis using a b by simp
qed

text \<open>
  C1. The claim: in the correction-term batch, for every ordered pair \<open>(i, j)\<close> with
  \<open>j \<noteq> i\<close>, the alternates resampled for the pair never include row \<open>i\<close> or row
  \<open>j\<close>. The code at \<open>N = 3\<close>, \<open>K = 2\<close> on the rows \<open>0, 1, 2\<close>, with the only outcome
  the draws can have: the twelve rows are six atom sets of two. The first set, for the
  excluded row 0 and the observation of row 1, is \<open>[1, 1]\<close>: the alternate is row 1
  itself. The second, for the excluded row 0 and the observation of row 2, is
  \<open>[2, 0]\<close>: the alternate is the excluded row.
\<close>

theorem correction_alternates_at_three:
  "is_outcome (off_diagonal_probs 2) (2 - 1) [[1], [0]] \<and>
   correction_atomic_theta [0, 1, 2 :: nat] 2 [[[1], [0]], [[1], [0]], [[1], [0]]] =
     Inr [1, 1, 2, 0, 0, 1, 2, 0, 0, 1, 1, 0]"
  by code_simp

section \<open>Properties of the loss engine\<close>

text \<open>
  C4. The claim: the correction term, computed as the log-sum-exp of the negative
  entropies minus \<open>log (N - 1)\<close>, equals the logarithm of the mean of the exponentials of
  the negative entropies, row by row. The code on one row of two logits 0: the
  cross-entropy is reduced to its mean \<open>ln 2\<close> before the log-sum-exp, so the
  correction term is the single number \<open>- 2 ln 2\<close>, and the reference value is
  \<open>- ln 2\<close>.
\<close>

theorem correction_of_zero_logits:
  "correction (Matrix [[Some 0, Some 0]]) = Inr (Scalar (Some (- 2 * ln 2))) \<and>
   naive_correction [[Some 0, Some 0]] = Vector [Some (- ln 2)]"
  by (simp add: correction_def and_then_def binary_cross_entropy_with_logits_def lift1_def
      lift2_def fmean_def fsum_def fdiv_def flog_def sigmoid_def bce_entry_def
      naive_correction_def negative_entropy_def ln_div)

lemma reshape2_shape:
  assumes "reshape2 R C flat = Inr M"
  shows "length M = R" "list_all (\<lambda>row. length row = C) M"
proof -
  have len: "length flat = R * C" and M: "M = map (\<lambda>r. take C (drop (r * C) flat)) [0..<R]"
    using assms by (auto simp: reshape2_def split: if_splits)
  show "length M = R" using M by simp
  have "length (take C (drop (r * C) flat)) = C" if "r < R" for r
  proof -
    have "Suc r * C \<le> R * C" using that by (intro mult_le_mono1) simp
    then show ?thesis using len by simp
  qed
  then show "list_all (\<lambda>row. length row = C) M" using M by (simp add: list_all_iff)
qed

lemma reshape2_ok: "length flat = R * C \<Longrightarrow> \<exists>M. reshape2 R C flat = Inr M"
  by (simp add: reshape2_def)

lemma collect_Inr: "collect (map Inr xs) = Inr xs"
  by (induction xs) auto

lemma eye_entry: "a < N \<Longrightarrow> c < N \<Longrightarrow> eye N ! a ! c = (if a = c then 1 else 0)"
  by (simp add: eye_def)

lemma expand_exclude_same_shape:
  assumes "0 < length t"
  shows "\<exists>tt. expand_exclude_same t = Inr tt \<and> length tt = length t \<and>
     list_all (\<lambda>row. length row = length t - 1) tt"
proof -
  let ?N = "length t"
  let ?rows = "map (\<lambda>a. map (\<lambda>c. replicate ?N t ! a ! c)
                   (filter (\<lambda>c. eye ?N ! a ! c = 0) [0..<?N])) [0..<?N]"
  have filt: "filter (\<lambda>c. eye ?N ! a ! c = 0) [0..<?N] = filter (\<lambda>c. c \<noteq> a) [0..<?N]"
    if "a < ?N" for a
    using that by (intro filter_cong) (auto simp: eye_entry)
  have "list_all (\<lambda>row. length row = ?N - 1) ?rows"
    using filt length_filter_neq by (simp add: list_all_iff)
  then have "length (concat ?rows) = ?N * (?N - 1)"
    using concat_uniform_length [of "?N - 1" ?rows] by simp
  then obtain M where M: "reshape2 ?N (?N - 1) (concat ?rows) = Inr M"
    using reshape2_ok by blast
  have "expand_exclude_same t = Inr M"
    using assms M by (simp add: expand_exclude_same_def Let_def)
  then show ?thesis using reshape2_shape [OF M] by simp
qed

lemma correction_atomic_theta_length:
  assumes N: "3 \<le> N" "length theta = N" and K: "2 \<le> K" "K \<le> N - 1"
    and len: "length outcomes = N"
    and outs: "list_all (is_outcome (off_diagonal_probs (N - 1)) (K - 1)) outcomes"
  shows "\<exists>atomic. correction_atomic_theta theta K outcomes = Inr atomic \<and>
     length atomic = N * (N - 1) * K"
proof -
  have N1: "2 \<le> N - 1" using N(1) by simp
  obtain tt where tt: "expand_exclude_same theta = Inr tt" "length tt = N"
    "list_all (\<lambda>row. length row = N - 1) tt"
    using expand_exclude_same_shape [of theta] N by auto
  have ok: "list_all (row_ok (K - 1)) (off_diagonal_probs (N - 1))"
    using N1 K by (intro probs_all_ok) auto
  have "map (\<lambda>a. multinomial (off_diagonal_probs (N - 1)) (K - 1) (outcomes ! a)) [0..<N]
      = map Inr (map (\<lambda>a. outcomes ! a) [0..<N])"
    using ok by (simp add: multinomial_def)
  also have "map (\<lambda>a. outcomes ! a) [0..<N] = outcomes"
    using len map_nth [of outcomes] by simp
  finally have draws: "collect (map (\<lambda>a. multinomial (off_diagonal_probs (N - 1)) (K - 1)
      (outcomes ! a)) [0..<N]) = Inr outcomes"
    by (simp add: collect_Inr)
  have out: "is_outcome (off_diagonal_probs (N - 1)) (K - 1) (outcomes ! a)" if "a < N" for a
    using outs that len by (simp add: list_all_length)
  have inrange: "list_all (list_all (\<lambda>c. c < length theta)) outcome"
    if o: "is_outcome (off_diagonal_probs (N - 1)) (K - 1) outcome" for outcome
    unfolding list_all_length
  proof (intro allI impI)
    fix i m assume im: "i < length outcome" "m < length (outcome ! i)"
    have "length outcome = N - 1" using outcome_length [OF o] by (simp add: probs_length)
    then have "outcome ! i ! m \<in> set (outcome ! i)" "i < N - 1" using im by auto
    then have "outcome ! i ! m < N - 1" using outcome_row(3) [OF o N1] by auto
    then show "outcome ! i ! m < length theta" using N(2) by simp
  qed
  have "index_rows theta outcome = Inr (map (map (\<lambda>c. theta ! c)) outcome)"
    if "outcome \<in> set outcomes" for outcome
  proof -
    have "is_outcome (off_diagonal_probs (N - 1)) (K - 1) outcome"
      using outs that by (simp add: list_all_iff)
    from inrange [OF this] show ?thesis by (simp add: index_rows_def)
  qed
  then have m: "map (index_rows theta) outcomes
      = map Inr (map (\<lambda>outcome. map (map (\<lambda>c. theta ! c)) outcome) outcomes)"
    by simp
  have idx: "collect (map (index_rows theta) outcomes)
      = Inr (map (\<lambda>outcome. map (map (\<lambda>c. theta ! c)) outcome) outcomes)"
    unfolding m by (rule collect_Inr)
  let ?contrasting = "map (\<lambda>outcome. map (map (\<lambda>c. theta ! c)) outcome) outcomes"
  let ?sets = "map2 (\<lambda>trow crow. concat (map2 (\<lambda>t cs. t # cs) trow crow)) tt ?contrasting"
  have val: "correction_atomic_theta theta K outcomes = Inr (concat ?sets)"
    using tt(1) draws idx N(2) by (simp add: correction_atomic_theta_def and_then_def Let_def)
  have set_len: "length (?sets ! a) = (N - 1) * K" if a: "a < N" for a
  proof -
    have o: "is_outcome (off_diagonal_probs (N - 1)) (K - 1) (outcomes ! a)" by (rule out [OF a])
    have lo: "length (outcomes ! a) = N - 1" using outcome_length [OF o] by (simp add: probs_length)
    have lt: "length (tt ! a) = N - 1" using tt(2,3) a by (simp add: list_all_length)
    let ?atoms = "map2 (\<lambda>t cs. t # cs) (tt ! a) (map (map (\<lambda>c. theta ! c)) (outcomes ! a))"
    have "list_all (\<lambda>r. length r = K) ?atoms"
      unfolding list_all_length
    proof (intro allI impI)
      fix r assume "r < length ?atoms"
      then have r: "r < N - 1" using lo lt by simp
      then have "length (outcomes ! a ! r) = K - 1" using outcome_row(1) [OF o N1] by simp
      then show "length (?atoms ! r) = K" using r lo lt K by simp
    qed
    then have "length (concat ?atoms) = (N - 1) * K"
      using concat_uniform_length [of K ?atoms] lo lt by simp
    moreover have "?sets ! a = concat ?atoms" using a tt(2) len by simp
    ultimately show ?thesis by simp
  qed
  have "list_all (\<lambda>r. length r = (N - 1) * K) ?sets"
    unfolding list_all_length using set_len tt(2) len by simp
  then have "length (concat ?sets) = N * ((N - 1) * K)"
    using concat_uniform_length [of "(N - 1) * K" ?sets] tt(2) len by simp
  then show ?thesis using val by (simp add: mult.assoc)
qed

lemma correction_logits_shape:
  assumes N: "3 \<le> N" "length theta = N" "length x = N" and K: "2 \<le> K" "K \<le> N - 1"
    and len: "length outcomes = N"
    and outs: "list_all (is_outcome (off_diagonal_probs (N - 1)) (K - 1)) outcomes"
  shows "\<exists>M. correction_logits net theta x K outcomes = Inr M \<and> length M = K * N \<and>
     list_all (\<lambda>row. length row = N - 1) M"
proof -
  obtain xx where xx: "expand_exclude_same x = Inr xx" "length xx = N"
    "list_all (\<lambda>row. length row = N - 1) xx"
    using expand_exclude_same_shape [of x] N by auto
  have lxx: "length (concat xx) = N * (N - 1)"
    using concat_uniform_length [OF xx(3)] xx(2) by simp
  obtain atomic where at: "correction_atomic_theta theta K outcomes = Inr atomic"
    "length atomic = N * (N - 1) * K"
    using correction_atomic_theta_length [OF N(1,2) K len outs] by blast
  have "length (map2 net atomic (repeat_rows (concat xx) K)) = K * N * (N - 1)"
    using at(2) lxx by (simp add: repeat_rows_length ac_simps)
  then obtain M where M: "reshape2 (K * N) (N - 1) (map2 net atomic (repeat_rows (concat xx) K)) = Inr M"
    using reshape2_ok by blast
  have "correction_logits net theta x K outcomes = Inr M"
    using xx(1) lxx at(1) M N(2) by (simp add: correction_logits_def and_then_def Let_def)
  then show ?thesis using reshape2_shape [OF M] by simp
qed

lemma correction_matrix: "\<exists>v. correction (Matrix rows) = Inr (Scalar v)"
proof -
  have "shape (Matrix rows) = shape (Matrix (map (map (lift1 sigmoid)) rows))"
    by (cases rows) auto
  then show ?thesis
    by (simp add: correction_def and_then_def binary_cross_entropy_with_logits_def Let_def)
qed

lemma bce_vector:
  "length xs = length ys \<Longrightarrow>
   \<exists>v. binary_cross_entropy_with_logits (Vector xs) (Vector ys) Mean = Inr (Scalar v)"
  by (simp add: binary_cross_entropy_with_logits_def and_then_def)

lemma classifier_logits_length:
  assumes "2 \<le> N" "length theta = N" "length x = N" "2 \<le> K" "K \<le> N"
    and out: "is_outcome (off_diagonal_probs N) (K - 1) outcome"
  shows "\<exists>logits. classifier_logits net theta x K outcome = Inr logits \<and>
     length logits = N * K"
proof -
  let ?rows = "map2 (\<lambda>t cs. t # cs) theta (map (map (\<lambda>c. theta ! c)) outcome)"
  have len: "length outcome = N" using outcome_length [OF out] by (simp add: probs_length)
  have val: "atomic_theta theta K outcome = Inr (concat ?rows)"
    by (rule atomic_theta_value [OF assms(1,2,4,5) out])
  have "list_all (\<lambda>r. length r = K) ?rows"
    unfolding list_all_length
  proof (intro allI impI)
    fix i assume "i < length ?rows"
    then have i: "i < N" using len assms(2) by simp
    then show "length (?rows ! i) = K"
      using outcome_row(1) [OF out assms(1) i] len assms(2,4) by simp
  qed
  then have "length (concat ?rows) = N * K"
    using concat_uniform_length [of K ?rows] len assms(2) by simp
  then show ?thesis
    using val assms(3) by (simp add: classifier_logits_def repeat_rows_length)
qed

lemma loss_terms_scalars:
  assumes N: "3 \<le> N" "length theta = N" "length x = N"
    and out: "is_outcome (off_diagonal_probs N) 1 outcome"
    and len: "length outcomes = N"
    and outs: "list_all (is_outcome (off_diagonal_probs (N - 1)) 1) outcomes"
  shows "\<exists>yw zw c. loss_terms net theta x 2 outcome outcomes = Inr (Scalar yw, Scalar zw, Scalar c)"
proof -
  have out': "is_outcome (off_diagonal_probs N) (2 - 1) outcome" using out by simp
  obtain out0 where cl: "classifier_logits net theta x 2 outcome = Inr out0"
    and lout: "length out0 = N * 2"
    using classifier_logits_length [OF _ N(2,3) _ _ out', of net] N(1) by auto
  have sq: "squeeze out0 = Vector (map Some out0)"
    using N(1) lout by (cases out0; cases "tl out0") (auto simp: squeeze_def split: list.splits)
  obtain yw where yw: "binary_cross_entropy_with_logits (Vector (map Some out0)) (labels N) Mean
      = Inr (Scalar yw)"
    using bce_vector [of "map Some out0" "map (\<lambda>i. if odd i then Some 0 else Some 1) [0..<2 * N]"]
      lout by (auto simp: labels_def)
  obtain zw where zw: "binary_cross_entropy_with_logits (Vector (map Some out0))
      (map_entries (lift1 sigmoid) (Vector (map Some out0))) Mean = Inr (Scalar zw)"
    using bce_vector [of "map Some out0" "map (lift1 sigmoid) (map Some out0)"] by auto
  have outs': "list_all (is_outcome (off_diagonal_probs (N - 1)) (2 - 1)) outcomes"
    using outs by simp
  have two: "(2::nat) \<le> 2" and N1: "2 \<le> N - 1" using N(1) by simp_all
  obtain M where M: "correction_logits net theta x 2 outcomes = Inr M"
    using correction_logits_shape [OF N two N1 len outs', of net] by blast
  obtain c where c: "correction (Matrix (map (map Some) M)) = Inr (Scalar c)"
    using correction_matrix by blast
  show ?thesis
    using N(2,3) cl sq yw zw M c by (simp add: loss_terms_def and_then_def Let_def)
qed

lemma loss_returns:
  assumes N: "3 \<le> N" "length theta = N" "length x = N"
    and out: "is_outcome (off_diagonal_probs N) 1 outcome"
    and len: "length outcomes = N"
    and outs: "list_all (is_outcome (off_diagonal_probs (N - 1)) 1) outcomes"
  shows "\<exists>r. loss net theta x 2 (Some l) outcome outcomes = Inr r"
proof -
  obtain yw zw c where "loss_terms net theta x 2 outcome outcomes = Inr (Scalar yw, Scalar zw, Scalar c)"
    using loss_terms_scalars [OF assms] by blast
  then show ?thesis by (simp add: loss_def convex_combine_def and_then_def)
qed

lemma loss_terms_two_rows:
  assumes "length theta = 2" "length x = 2"
    and out: "is_outcome (off_diagonal_probs 2) 1 outcome"
  shows "loss_terms net theta x 2 outcome outcomes = Inl RuntimeError"
proof -
  have out': "is_outcome (off_diagonal_probs 2) (2 - 1) outcome" using out by simp
  obtain out0 where cl: "classifier_logits net theta x 2 outcome = Inr out0"
    and lout: "length out0 = 2 * 2"
    using classifier_logits_length [OF _ assms(1,2) _ _ out', of net] by auto
  have sq: "squeeze out0 = Vector (map Some out0)"
    using lout by (cases out0; cases "tl out0") (auto simp: squeeze_def split: list.splits)
  obtain yw where yw: "binary_cross_entropy_with_logits (Vector (map Some out0)) (labels 2) Mean
      = Inr (Scalar yw)"
    using bce_vector [of "map Some out0" "map (\<lambda>i. if odd i then Some 0 else Some 1) [0..<2 * 2]"]
      lout by (auto simp: labels_def)
  obtain zw where zw: "binary_cross_entropy_with_logits (Vector (map Some out0))
      (map_entries (lift1 sigmoid) (Vector (map Some out0))) Mean = Inr (Scalar zw)"
    using bce_vector [of "map Some out0" "map (lift1 sigmoid) (map Some out0)"] by auto
  obtain xx where xx: "expand_exclude_same x = Inr xx" "length xx = 2"
    "list_all (\<lambda>row. length row = 2 - 1) xx"
    using expand_exclude_same_shape [of x] assms(2) by auto
  have lxx: "length (concat xx) = 2 * 1"
    using concat_uniform_length [OF xx(3)] xx(2) by simp
  obtain tt where tt: "expand_exclude_same theta = Inr tt"
    using expand_exclude_same_shape [of theta] assms(1) by auto
  have "off_diagonal_probs 1 = [[None]]"
    by (simp add: off_diagonal_probs_def ones_def eye_def fdiv_def)
  then have "multinomial (off_diagonal_probs (2 - 1)) (2 - 1) o1 = Inl RuntimeError" for o1
    by (simp add: multinomial_def row_ok_def finite_weight_def)
  then have "collect (map (\<lambda>a. multinomial (off_diagonal_probs (2 - 1)) (2 - 1) (outcomes ! a))
      [0..<2]) = Inl RuntimeError"
    by (simp add: upt_conv_Cons)
  then have "correction_atomic_theta theta 2 outcomes = Inl RuntimeError"
    using tt assms(1) by (simp add: correction_atomic_theta_def and_then_def Let_def)
  then have "correction_logits net theta x 2 outcomes = Inl RuntimeError"
    using xx(1) lxx assms(1) by (simp add: correction_logits_def and_then_def Let_def)
  then show ?thesis
    using assms(1,2) cl sq yw zw by (simp add: loss_terms_def and_then_def Let_def)
qed

text \<open>
  C3. The claim: for every batch of matched rows, \<open>_loss_terms\<close> returns
  \<open>entropy_yw\<close>, \<open>entropy_zw\<close> and \<open>exp_neg_entropy_zw\<close> each as a per-sample tensor,
  not as a single batch-reduced scalar. The code, for every batch of \<open>N \<ge> 3\<close> matched
  rows, two atoms and every possible outcome of the draws: each of the three is a
  tensor of dimension 0, one number for the whole batch, since every cross-entropy is
  reduced to its mean. (With two rows the call raises, lemma \<open>loss_terms_two_rows\<close>.)
\<close>

theorem loss_terms_batch_reduced:
  assumes "3 \<le> N" "length theta = N" "length x = N"
    and "is_outcome (off_diagonal_probs N) 1 outcome"
    and "length outcomes = N"
    and "list_all (is_outcome (off_diagonal_probs (N - 1)) 1) outcomes"
  shows "\<exists>entropy_yw entropy_zw exp_neg_entropy_zw.
     loss_terms net theta x 2 outcome outcomes =
       Inr (entropy_yw, entropy_zw, exp_neg_entropy_zw) \<and>
     shape entropy_yw = [] \<and> shape entropy_zw = [] \<and> shape exp_neg_entropy_zw = []"
proof -
  obtain yw zw c where
    "loss_terms net theta x 2 outcome outcomes = Inr (Scalar yw, Scalar zw, Scalar c)"
    using loss_terms_scalars [OF assms] by blast
  then show ?thesis by simp
qed

text \<open>The theorem at three rows, with a classifier that answers 0.\<close>

theorem loss_terms_batch_reduced_witness:
  "\<exists>entropy_yw entropy_zw exp_neg_entropy_zw.
     loss_terms (\<lambda>t x. 0) [0, 1, 2 :: nat] [0, 1, 2 :: nat] 2 [[1], [2], [0]]
       [[[1], [0]], [[1], [0]], [[1], [0]]] =
       Inr (entropy_yw, entropy_zw, exp_neg_entropy_zw) \<and>
     shape entropy_yw = [] \<and> shape entropy_zw = [] \<and> shape exp_neg_entropy_zw = []"
proof -
  have o1: "is_outcome (off_diagonal_probs 3) 1 [[1], [2], [0]]" by code_simp
  have o2: "list_all (is_outcome (off_diagonal_probs (3 - 1)) 1) [[[1], [0]], [[1], [0]], [[1], [0]]]"
    by code_simp
  show ?thesis
    by (rule loss_terms_batch_reduced [OF _ _ _ o1 _ o2]) simp_all
qed

text \<open>
  On entrywise negative entropies \<open>vs\<close>, which is how C4 reads them, the log-sum-exp
  minus the logarithm of their number is the logarithm of the mean of their
  exponentials: the identity itself holds.
\<close>

lemma fsum_Some: "fsum (map Some ws) = Some (sum_list ws)"
  by (induction ws) (auto simp: fsum_def lift2_def)

lemma sum_exp_pos:
  assumes "vs \<noteq> []"
  shows "0 < sum_list (map exp (vs :: real list))"
proof -
  have nonneg: "0 \<le> sum_list (map exp (ws :: real list))" for ws
    by (rule sum_list_nonneg) auto
  obtain v ws where "vs = v # ws" using assms by (cases vs) auto
  then show ?thesis using nonneg [of ws] by (simp add: add_pos_nonneg)
qed

lemma lse_is_log_mean:
  assumes "vs \<noteq> []"
  shows "lift2 (-) (lse (map Some vs)) (flog (Some (real (length vs)))) =
     flog (fmean (map (\<lambda>v. lift1 exp (Some v)) vs))"
proof -
  have m1: "map (lift1 exp) (map Some vs) = map Some (map exp vs)"
    by (simp add: lift1_def)
  have m2: "map (\<lambda>v. lift1 exp (Some v)) vs = map Some (map exp vs)"
    by (simp add: lift1_def)
  have pos: "0 < sum_list (map exp vs)" by (rule sum_exp_pos [OF assms])
  have n: "0 < real (length vs)" using assms by simp
  have "lse (map Some vs) = flog (Some (sum_list (map exp vs)))"
    unfolding lse_def m1 fsum_Some ..
  then have left: "lse (map Some vs) = Some (ln (sum_list (map exp vs)))"
    using pos by (simp add: flog_def)
  have "fmean (map Some (map exp vs)) = fdiv (sum_list (map exp vs)) (real (length vs))"
    unfolding fmean_def fsum_Some by simp
  then have "fmean (map (\<lambda>v. lift1 exp (Some v)) vs) =
      Some (sum_list (map exp vs) / real (length vs))"
    unfolding m2 using n by (simp add: fdiv_def)
  then have right: "flog (fmean (map (\<lambda>v. lift1 exp (Some v)) vs)) =
      Some (ln (sum_list (map exp vs)) - ln (real (length vs)))"
    using pos n by (simp add: flog_def ln_div)
  show ?thesis unfolding left right using n by (simp add: lift2_def flog_def)
qed

section \<open>Properties of the posterior builder\<close>


lemma build_posterior_unsupported:
  assumes "sample_with \<noteq> ''mcmc''" "sample_with \<noteq> ''rejection''"
  shows "snd (build_posterior pd pot s de pr sample_with m mp rp) = s"
    and "\<exists>e. fst (build_posterior pd pot s de pr sample_with m mp rp) = Inl e"
  using assms by (auto simp: build_posterior_def split: option.splits sum.splits list.splits)

text \<open>
  C8, as amended. For every call of \<open>build_posterior\<close> with a \<open>sample_with\<close> other than
  \<open>mcmc\<close> and \<open>rejection\<close>, the call raises and the object, its model bank included, is
  what it was before. What is raised is the assertion of the prior check when no prior
  was passed and none is stored, and the not-implemented signal when a prior is there,
  a passed estimator has a parameter and the potential function can be built.
\<close>

theorem unsupported_sample_with:
  assumes "sample_with \<noteq> ''mcmc''" "sample_with \<noteq> ''rejection''"
  shows "snd (build_posterior pd pot s de pr sample_with m mp rp) = s \<and>
     (\<exists>e. fst (build_posterior pd pot s de pr sample_with m mp rp) = Inl e) \<and>
     ((case pr of None \<Rightarrow> prior s | Some q \<Rightarrow> Some q) = None \<longrightarrow>
        fst (build_posterior pd pot s de pr sample_with m mp rp) = Inl AssertionError) \<and>
     ((case pr of None \<Rightarrow> prior s | Some q \<Rightarrow> Some q) = Some p \<and>
      (case de of None \<Rightarrow> True | Some est \<Rightarrow> pd est \<noteq> []) \<and>
      pot (neural_net s) p = Inr pt \<longrightarrow>
        fst (build_posterior pd pot s de pr sample_with m mp rp) = Inl NotImplementedError)"
  using assms by (auto simp: build_posterior_def split: option.splits sum.splits list.splits)

text \<open>The theorem at \<open>sample_with = vi\<close>, with a stored prior and a passed estimator.\<close>

theorem unsupported_sample_with_witness:
  "snd (build_posterior (\<lambda>net :: nat. [''cuda'']) (\<lambda>net p. Inr (net, ()))
          ((new_estimator (Some ()) ''cpu'' ()
              :: (nat, nat, nat, unit, unit, unit, nat option, unit) ratio_estimator)
             \<lparr>neural_net := Some 1\<rparr>)
          (Some 2) None ''vi'' ''slice_np'' [] [])
     = (new_estimator (Some ()) ''cpu'' ()) \<lparr>neural_net := Some 1\<rparr> \<and>
   fst (build_posterior (\<lambda>net :: nat. [''cuda'']) (\<lambda>net p. Inr (net, ()))
          ((new_estimator (Some ()) ''cpu'' ()
              :: (nat, nat, nat, unit, unit, unit, nat option, unit) ratio_estimator)
             \<lparr>neural_net := Some 1\<rparr>)
          (Some 2) None ''vi'' ''slice_np'' [] [])
     = Inl NotImplementedError"
  using unsupported_sample_with [of "''vi''" "\<lambda>net :: nat. [''cuda'']" "\<lambda>net p. Inr (net, ())"
      "(new_estimator (Some ()) ''cpu'' ()
          :: (nat, nat, nat, unit, unit, unit, nat option, unit) ratio_estimator)
         \<lparr>neural_net := Some 1\<rparr>" "Some 2" None "''slice_np''" "[]" "[]" "()" "(Some 1, ())"]
  by (simp add: new_estimator_def)

text \<open>
  C8 as the claim states it fails: with no prior passed and none stored, the call with
  \<open>sample_with = vi\<close> raises the assertion of the prior check, not the not-implemented
  signal.
\<close>

theorem missing_prior_counterexample:
  "build_posterior (\<lambda>net :: nat. [''cuda'']) (\<lambda>net p. Inr (net, ()))
     (new_estimator (None :: unit option) ''cpu'' ()
        :: (nat, nat, nat, unit, unit, unit, nat option, unit) ratio_estimator)
     None None ''vi'' ''slice_np'' [] []
   = (Inl AssertionError, new_estimator None ''cpu'' ())"
  by (simp add: build_posterior_def new_estimator_def)

text \<open>
  C10. For every call of \<open>build_posterior\<close> with an estimator passed that returns a
  posterior, the potential function of the posterior is the one built from the stored
  network \<open>neural_net s\<close> and the prior, its device is the device of the first parameter
  of the passed estimator, and any other estimator whose first parameter is on that
  device gives the same posterior and the same object: the passed estimator is used for
  the device only.
\<close>

theorem passed_estimator_gives_device_only:
  assumes "build_posterior pd pot s (Some est) pr sample_with m mp rp = (Inr post, s')"
  shows "\<exists>p pt d ds.
     (case pr of None \<Rightarrow> prior s | Some q \<Rightarrow> Some q) = Some p \<and>
     pot (neural_net s) p = Inr pt \<and> potential_fn post = fst pt \<and>
     pd est = d # ds \<and> posterior_device post = d \<and>
     (\<forall>est' ds'. pd est' = d # ds' \<longrightarrow>
        build_posterior pd pot s (Some est') pr sample_with m mp rp = (Inr post, s'))"
  using assms
  by (auto simp: build_posterior_def Let_def split: option.splits sum.splits list.splits if_splits)

text \<open>
  The theorem where the stored network is 1 and the passed estimator is 2 (the potential
  function is the network it was built from): the posterior holds network 1.
\<close>

theorem passed_estimator_gives_device_only_witness:
  "\<exists>post s'.
     build_posterior (\<lambda>net :: nat. [''cuda'']) (\<lambda>net p. Inr (net, ()))
       ((new_estimator (Some ()) ''cpu'' ()
           :: (nat, nat, nat, unit, unit, unit, nat option, unit) ratio_estimator)
          \<lparr>neural_net := Some 1\<rparr>)
       (Some 2) None ''mcmc'' ''slice_np'' [] [] = (Inr post, s') \<and>
     potential_fn post = Some 1 \<and> posterior_device post = ''cuda''"
proof -
  let ?s = "(new_estimator (Some ()) ''cpu'' ()
          :: (nat, nat, nat, unit, unit, unit, nat option, unit) ratio_estimator)
         \<lparr>neural_net := Some 1\<rparr>"
  let ?post = "MCMCPosterior (Some (1 :: nat)) () () ''slice_np'' ''cuda'' None []"
  have call: "build_posterior (\<lambda>net :: nat. [''cuda'']) (\<lambda>net p. Inr (net, ())) ?s (Some 2) None
      ''mcmc'' ''slice_np'' [] []
    = (Inr ?post, ?s\<lparr>posterior := Some ?post, model_bank := [?post]\<rparr>)"
    by (simp add: build_posterior_def new_estimator_def Let_def)
  from passed_estimator_gives_device_only [OF call]
  obtain p pt d ds where "(\<lambda>net p. Inr (net, ())) (neural_net ?s) p = Inr pt"
    "potential_fn ?post = fst pt" "[''cuda''] = d # ds" "posterior_device ?post = d"
    by blast
  then have "potential_fn ?post = Some 1" "posterior_device ?post = ''cuda''"
    by (auto simp: new_estimator_def)
  with call show ?thesis by blast
qed



section \<open>Properties of training\<close>

text \<open>
  In \<open>anneal\<close> the triple that \<open>_loss\<close> returns is handed to \<open>torch.mean\<close> whole:
  once the loss is computed, the step raises.
\<close>

lemma anneal_batch_raises:
  "anneal_batch ext atoms mult clip ((net, Some opt), running, n) b =
     and_then (loss (forward ext net) (fst b) (snd b) atoms mult (fst (draw ext n)) (snd (draw ext n)))
       (\<lambda>losses. Inl TypeError)"
  by (simp add: anneal_batch_def and_then_def Let_def split: sum.splits)

lemma anneal_batch_never_returns: "\<exists>e. anneal_batch ext atoms mult clip acc b = Inl e"
  by (cases "snd (fst acc)")
    (auto simp: anneal_batch_def and_then_def Let_def split: sum.splits)

lemma for_each_first_raises:
  "body acc b = Inl e \<Longrightarrow> for_each body (b # bs) acc = Inl e"
  by (simp add: and_then_def)

text \<open>
  The same step in \<open>train\<close>, which unpacks the triple, goes through whenever the loss
  is computed.
\<close>

lemma train_batch_returns:
  assumes "loss (forward ext net) (fst b) (snd b) atoms mult (fst (draw ext n)) (snd (draw ext n))
      = Inr (objective, regularizer, mixed)"
  shows "\<exists>r. train_batch ext atoms mult clip ((net, Some opt), running, n) b = Inr r"
  using assms by (cases mixed) (simp_all add: train_batch_def and_then_def Let_def)

text \<open>
  No iteration of the loop of \<open>anneal\<close> ends: with a batch to train on the first step
  raises, and with none the average divides by zero.
\<close>

lemma anneal_loop_never_completes:
  assumes "int (epoch s) < max_num_epochs a"
  shows "\<exists>e. anneal_loop ext a tloader vloader atoms s n = Inl e"
proof (cases "law_of_cooling (lagrange_multiplier a) 0.01 (annealing_rate a) (epoch s)")
  case (Inl e)
  then show ?thesis using assms by (subst anneal_loop.simps) (simp add: Let_def)
next
  case (Inr lam)
  let ?c = "converged ext (neural_net s) (val_log_prob s) (bookkeeping s) (epoch s)
              (stop_after_epochs a)"
  show ?thesis
  proof (cases "fst (snd ?c)")
    case None
    then show ?thesis using assms Inr by (subst anneal_loop.simps) (simp add: Let_def)
  next
    case (Some net)
    let ?pass = "for_each (anneal_batch ext atoms (Some lam) (clip_max_norm a))
                   (batches tloader) ((net, optimizer s), Some 0, n)"
    show ?thesis
    proof (cases "batches tloader")
      case Nil
      then have "?pass = Inr ((net, optimizer s), Some 0, n)" by simp
      then show ?thesis using assms Inr Some Nil
        by (subst anneal_loop.simps) (simp add: Let_def py_div_def)
    next
      case (Cons b bs)
      obtain e where "anneal_batch ext atoms (Some lam) (clip_max_norm a)
          ((net, optimizer s), Some 0, n) b = Inl e"
        using anneal_batch_never_returns by blast
      then have "?pass = Inl e" unfolding Cons by (rule for_each_first_raises)
      then show ?thesis using assms Inr Some
        by (subst anneal_loop.simps) (simp add: Let_def)
    qed
  qed
qed

lemma anneal_loop_first_batch:
  assumes "int (epoch s) < max_num_epochs a"
    and "lagrange_multiplier a = Some target"
    and "fst (snd (converged ext (neural_net s) (val_log_prob s) (bookkeeping s) (epoch s)
           (stop_after_epochs a))) = Some net"
    and "optimizer s = Some opt"
    and "batches tloader = b # bs"
  shows "anneal_loop ext a tloader vloader atoms s n =
     and_then
       (loss (forward ext net) (fst b) (snd b) atoms
          (Some (target + (0.01 - target) * exp (- annealing_rate a * real (epoch s))))
          (fst (draw ext n)) (snd (draw ext n)))
       (\<lambda>losses. Inl TypeError)"
  using assms
  by (subst anneal_loop.simps)
    (simp add: Let_def law_of_cooling_def anneal_batch_raises and_then_def split: sum.splits)

text \<open>
  C6. The claim: in \<open>anneal\<close> the multiplier used for the gradient update of every
  epoch \<open>e\<close> is \<open>target + (0.01 - target) * exp (- annealing_rate * e)\<close>. The code: the
  lambda \<open>law_of_cooling\<close> gives that value for every epoch counter, and the minibatch
  step that is handed it raises, whatever the network, the batch and the draws are,
  before \<open>backward\<close> and \<open>optimizer.step\<close>: no gradient update is made with it.
\<close>

theorem annealed_multiplier_never_updates:
  "law_of_cooling (Some target) 0.01 rate e =
     Inr (target + (0.01 - target) * exp (- rate * real e)) \<and>
   (\<exists>err. anneal_batch ext atoms
             (Some (target + (0.01 - target) * exp (- rate * real e))) clip acc b = Inl err)"
proof -
  obtain err where "anneal_batch ext atoms
      (Some (target + (0.01 - target) * exp (- rate * real e))) clip acc b = Inl err"
    using anneal_batch_never_returns by blast
  then show ?thesis by (simp add: law_of_cooling_def)
qed

lemma demo_setup:
  "training_setup (demo_externals 3) demo_estimator 2 3 (1 / 2) True False False =
     Inr (([0, 1, 2, 3, 4, 5], [0, 1, 2, 3, 4, 5]),
          (loader_of 3 [(0, 0), (1, 1), (2, 2)], loader_of 3 [(3, 3), (4, 4), (5, 5)], [0, 1, 2]),
          2, demo_estimator\<lparr>round' := 0\<rparr>)"
  by (simp add: training_setup_def start_idx_def py_max_def and_then_def get_simulations_def
      demo_externals_def demo_dataloaders_def demo_estimator_def new_estimator_def
      clamp_and_warn_def loader_of_def Let_def upt_conv_Cons)

lemma demo_loss:
  "\<exists>r. loss (\<lambda>t x. 0) [0, 1, 2 :: nat] [0, 1, 2 :: nat] 2 (Some l)
         [[1], [2], [0]] [[[1], [0]], [[1], [0]], [[1], [0]]] = Inr r"
proof -
  have o1: "is_outcome (off_diagonal_probs 3) 1 [[1], [2], [0]]" by code_simp
  have o2: "list_all (is_outcome (off_diagonal_probs (3 - 1)) 1) [[[1], [0]], [[1], [0]], [[1], [0]]]"
    by code_simp
  show ?thesis by (rule loss_returns [OF _ _ _ o1 _ o2]) simp_all
qed

text \<open>
  C7. The claim: the epoch loop of \<open>anneal\<close> never exits before the epoch counter
  reaches \<open>max_num_epochs\<close>. The code on six stored rows, a batch size of 3 and
  \<open>max_num_epochs = 100\<close>: the call raises on the first minibatch of the first epoch,
  with the counter at 0.
\<close>

theorem anneal_raises_in_first_epoch:
  "anneal (demo_externals 3) demo_args demo_estimator 0 = Inl TypeError"
proof -
  let ?s3 = "demo_estimator\<lparr>round' := 0, neural_net := Some (), x_shape := Some [1],
      optimizer := Some (), epoch := 0, val_log_prob := None\<rparr>"
  have b: "batches (loader_of 3 [(0 :: nat, 0 :: nat), (1, 1), (2, 2)]) = ([0, 1, 2], [0, 1, 2]) # []"
    by (simp add: loader_of_def)
  have "anneal_loop (demo_externals 3) demo_args
      (loader_of 3 [(0, 0), (1, 1), (2, 2)]) (loader_of 3 [(3, 3), (4, 4), (5, 5)]) 2 ?s3 0 =
    and_then
      (loss (forward (demo_externals 3) ()) (fst ([0, 1, 2], [0, 1, 2 :: nat])) (snd ([0, 1, 2 :: nat], [0, 1, 2]))
         2 (Some (1 / 2 + (0.01 - 1 / 2) * exp (- annealing_rate demo_args * real (epoch ?s3))))
         (fst (draw (demo_externals 3) 0)) (snd (draw (demo_externals 3) 0)))
      (\<lambda>losses. Inl TypeError)"
    by (rule anneal_loop_first_batch [OF _ _ _ _ b])
      (simp_all add: demo_args_def demo_externals_def demo_estimator_def new_estimator_def)
  also have "\<dots> = Inl TypeError"
    using demo_loss [of "1 / 2 + (0.01 - 1 / 2) * exp (- annealing_rate demo_args * real (epoch ?s3))"]
    by (auto simp: demo_externals_def and_then_def)
  finally have loop: "anneal_loop (demo_externals 3) demo_args
      (loader_of 3 [(0, 0), (1, 1), (2, 2)]) (loader_of 3 [(3, 3), (4, 4), (5, 5)]) 2 ?s3 0 =
    Inl TypeError" .
  have args: "num_atoms demo_args = 2" "training_batch_size demo_args = 3"
    "validation_fraction demo_args = 1 / 2" "exclude_invalid_x demo_args"
    "\<not> resume_training demo_args" "\<not> discard_prior_samples demo_args"
    "\<not> retrain_from_scratch demo_args" "annealing_rate demo_args > 0"
    by (simp_all add: demo_args_def)
  have net0: "neural_net (demo_estimator\<lparr>round' := 0\<rparr>) = None"
    by (simp add: demo_estimator_def new_estimator_def)
  have ext: "x_shape_from_simulation (demo_externals 3) = (\<lambda>xs. [1])"
    by (simp add: demo_externals_def)
  show ?thesis
    using loop
    by (simp add: anneal_def args demo_setup and_then_def select_rows_def Let_def net0 ext)
qed

text \<open>
  C2. The claim: \<open>num_atoms\<close> is clamped to at most the smaller of the batch sizes of
  the two loaders. The code on nine stored rows, three for training and six for
  validation, with a batch size of 3 and \<open>num_atoms = 3\<close>: the validation loader has
  batch size 3 and two batches, and \<open>num_atoms\<close> becomes 2, the number of validation
  batches.
\<close>

theorem clamp_bound_is_number_of_validation_batches:
  "and_then
     (training_setup (demo_externals 3)
        (demo_estimator\<lparr>theta_roundwise := [[0, 1, 2, 3, 4, 5, 6, 7, 8]],
                         x_roundwise := [[0, 1, 2, 3, 4, 5, 6, 7, 8]]\<rparr>)
        3 3 (2 / 3) True False False)
     (\<lambda>r. Inr (fst (snd (snd r)), batch_size (fst (snd (fst (snd r)))),
                length (batches (fst (snd (fst (snd r)))))))
   = Inr (2, 3, 2)"
  by (simp add: training_setup_def start_idx_def py_max_def and_then_def get_simulations_def
      demo_externals_def demo_dataloaders_def demo_estimator_def new_estimator_def
      clamp_and_warn_def loader_of_def Let_def upt_conv_Cons)

text \<open>
  C9. The claim: with \<open>discard_prior_samples\<close> and a batch of a round above 0 stored,
  training leaves out exactly the rows of round 0. The code on a new object, two rows
  appended for round 0 and two for round 1, then the set-up of \<open>train\<close> with
  \<open>discard_prior_samples\<close>: the starting index is computed from the round the object
  held before the call, which is 0, and all four rows are loaded; only then is the
  round set to 1.
\<close>

theorem first_training_keeps_prior_rows:
  "and_then (append_simulations
       (new_estimator None ''cpu'' () :: (nat, nat, unit, unit, unit, unit, unit, unit) ratio_estimator)
       [1, 2] [10, 20] 0) (\<lambda>s1.
   and_then (append_simulations s1 [3, 4] [30, 40] 1) (\<lambda>s2.
   and_then (training_setup (demo_externals 2) s2 2 2 (1 / 2) True False True) (\<lambda>r.
     Inr (fst r, round' (snd (snd (snd r)))))))
   = Inr (([1, 2, 3, 4], [10, 20, 30, 40]), 1)"
  by (simp add: training_setup_def start_idx_def py_max_def and_then_def get_simulations_def
      append_simulations_def new_estimator_def clamp_and_warn_def demo_externals_def Let_def)

text \<open>What the shared set-up clamps \<open>num_atoms\<close> to, for every call.\<close>

lemma clamped_num_atoms:
  assumes "training_setup ext s atoms batch_sz vf ex re di = Inr (sims, loaders, clamped, s1)"
  shows "clamped = max 2 (min atoms (min batch_sz (int (length (batches (fst (snd loaders)))))))"
  using assms
  by (auto simp: training_setup_def and_then_def Let_def clamp_and_warn_def split: sum.splits)

end
